theory Spec2Isabelle
  imports Complex_Main "HOL-Library.Word" "HOL-Library.Log_Nat"
begin

unbundle bit_operations_syntax

section \<open>Conventions\<close>

text \<open>
  The development embeds the world generator of \<^verbatim>\<open>diorama-test-gpt\<close>
  (\<^verbatim>\<open>src/world/worldgen.js\<close>, \<^verbatim>\<open>src/utils/rng.js\<close>, \<^verbatim>\<open>src/utils/math.js\<close>).

  \<^item> The integer arithmetic of \<^verbatim>\<open>mulberry32\<close> is modelled exactly: the captured counter
    is a JavaScript number holding a non-negative integer (a \<open>nat\<close>, with the rounding of
    double-precision addition written out), the bitwise operators work on \<open>32 word\<close>.
  \<^item> All other JavaScript numbers are modelled as \<open>real\<close>: \<^verbatim>\<open>Math.sin\<close>, \<^verbatim>\<open>Math.exp\<close>,
    \<^verbatim>\<open>Math.pow\<close>, \<^verbatim>\<open>Math.hypot\<close> are the real functions, rounding error, infinities and NaN
    are outside the model.
  \<^item> A closure \<^verbatim>\<open>() => number\<close> such as \<^verbatim>\<open>randWorld\<close> is the sequence of the values it
    returns, \<open>nat \<Rightarrow> real\<close>; code that calls it threads the index of the next value.
  \<^item> \<^verbatim>\<open>ImprovedNoise\<close> comes from the three.js distribution, which is not part of the
    repository: the noise function is a parameter of the model.
\<close>

type_synonym u32 = "32 word"
type_synonym rand = "nat \<Rightarrow> real"
type_synonym noise_fn = "real \<Rightarrow> real \<Rightarrow> real \<Rightarrow> real"

section \<open>utils/math.js\<close>

definition clamp :: "real \<Rightarrow> real \<Rightarrow> real \<Rightarrow> real" where
  "clamp v a b = max a (min b v)"

definition lerp :: "real \<Rightarrow> real \<Rightarrow> real \<Rightarrow> real" where
  "lerp a b t = a + (b - a) * t"

definition smoothstep :: "real \<Rightarrow> real \<Rightarrow> real \<Rightarrow> real" where
  "smoothstep edge0 edge1 x =
     (let t = clamp ((x - edge0) / (edge1 - edge0)) 0 1
      in t * t * (3 - 2 * t))"

text \<open>\<^verbatim>\<open>Math.hypot\<close> of two arguments.\<close>

definition hypot :: "real \<Rightarrow> real \<Rightarrow> real" where
  "hypot a b = sqrt (a * a + b * b)"

section \<open>utils/rng.js\<close>

text \<open>
  \<^verbatim>\<open>t += 0x6d2b79f5\<close> is an addition of doubles: exact below \<open>2 ^ 53\<close>, rounded to 53
  significant bits (ties to even) above.
\<close>

definition roundToDouble :: "nat \<Rightarrow> nat" where
  "roundToDouble n =
     (if n < 2 ^ 53 then n
      else let e = floorlog 2 n - 53;
               q = n div 2 ^ e;
               r = n mod 2 ^ e;
               h = 2 ^ (e - 1)
           in if r < h \<or> (r = h \<and> even q) then q * 2 ^ e else (q + 1) * 2 ^ e)"

text \<open>\<^verbatim>\<open>let t = seed >>> 0\<close>: the state captured by the closure that \<^verbatim>\<open>mulberry32\<close> returns.\<close>

definition mulberry32 :: "int \<Rightarrow> nat" where
  "mulberry32 seed = nat (seed mod 2 ^ 32)"

text \<open>One call of the closure: the value returned and the new captured state.\<close>

definition mulberry32_next :: "nat \<Rightarrow> real \<times> nat" where
  "mulberry32_next t0 =
     (let t = roundToDouble (t0 + 0x6d2b79f5);
          x0 = (word_of_nat t :: u32);
          x1 = (x0 XOR drop_bit 15 x0) * (x0 OR 1);
          x2 = x1 XOR (x1 + (x1 XOR drop_bit 7 x1) * (x1 OR 61))
      in (real (unat (x2 XOR drop_bit 14 x2)) / 4294967296, t))"

fun mulberry32_state :: "nat \<Rightarrow> nat \<Rightarrow> nat" where
  "mulberry32_state t 0 = t"
| "mulberry32_state t (Suc n) = mulberry32_state (snd (mulberry32_next t)) n"

text \<open>The value returned by call number \<open>n\<close> (from 0) of a closure created in state \<open>t\<close>.\<close>

definition mulberry32_seq :: "nat \<Rightarrow> rand" where
  "mulberry32_seq t n = fst (mulberry32_next (mulberry32_state t n))"

section \<open>world/worldgen.js: constants and profile data\<close>

definition WORLD_size :: real where "WORLD_size = 680"
definition WORLD_half :: real where "WORLD_half = 340"
definition WORLD_waterLevel :: real where "WORLD_waterLevel = - 1.25"
definition WORLD_riverWidth :: real where "WORLD_riverWidth = 10"
definition WORLD_riverBankWidth :: real where "WORLD_riverBankWidth = 22"
definition WORLD_riverDepth :: real where "WORLD_riverDepth = 2.6"

record river_profile =
  amp1 :: real
  amp2 :: real
  freq :: real
  wobbleFreq :: real
  wobbleAmp :: real
  phase :: real

datatype biome_kind = mainland | miniIslands

record island =
  isl_x :: real
  isl_z :: real
  isl_r :: real
  isl_height :: real
  isl_detail :: real
  isl_seed :: real

record pond =
  pond_x :: real
  pond_z :: real
  pond_r :: real
  pond_depth :: real
  pond_fill :: real
  pond_level :: real

record fall_path =
  fall_x0 :: real
  fall_z0 :: real
  fall_x1 :: real
  fall_z1 :: real
  fall_width :: real
  fall_depth :: real
  fall_drop :: real

text \<open>
  The object returned by \<^verbatim>\<open>makeBiomeProfile\<close>. The mainland object has no \<^verbatim>\<open>seaLevel\<close>
  (\<open>None\<close>) and no \<^verbatim>\<open>islands\<close> (the empty list); \<^verbatim>\<open>fall: null\<close> is \<open>None\<close>;
  a \<^verbatim>\<open>THREE.Vector2\<close> is a pair.
\<close>

record biome =
  kind :: biome_kind
  seaLevel :: "real option"
  islands :: "island list"
  coastDir :: "real \<times> real"
  shorePos :: real
  shoreWidth :: real
  coastDrop :: real
  coastWaterLevel :: real
  ponds :: "pond list"
  springIndex :: int
  fall :: "fall_path option"

datatype terrain_style = style_alpine | style_plateau | style_canyon | style_rolling | style_islands

record feature =
  feat_x :: real
  feat_z :: real
  feat_r :: real
  feat_amp :: real

record ridge =
  ridge_px :: real
  ridge_pz :: real
  ridge_dx :: real
  ridge_dz :: real
  ridge_width :: real
  ridge_amp :: real

text \<open>A point of interest \<^verbatim>\<open>{ x, z, r }\<close>: the peak, the volcano, the ruins.\<close>

record poi =
  poi_x :: real
  poi_z :: real
  poi_r :: real

record terrain_profile =
  style :: terrain_style
  warpScale :: real
  warpAmp :: real
  baseAmp :: real
  ridgeAmp :: real
  microAmp :: real
  features :: "feature list"
  ridges :: "ridge list"
  terraceStep :: real
  terraceStrength :: real
  peak :: poi

record eco =
  volcano :: poi
  ruins :: poi

section \<open>River profile\<close>

definition makeRiverProfile :: "rand \<Rightarrow> real \<Rightarrow> nat \<Rightarrow> river_profile \<times> nat" where
  "makeRiverProfile randWorld seed i =
     (let a1 = lerp 14 28 (randWorld i);
          a2 = a1 * lerp 0.28 0.7 (randWorld (i + 1));
          fr = lerp 0.022 0.048 (randWorld (i + 2));
          wf = lerp 0.012 0.028 (randWorld (i + 3));
          wa = lerp 1.5 7.0 (randWorld (i + 4));
          ph = seed * lerp 0.11 0.24 (randWorld (i + 5)) + randWorld (i + 6) * pi * 2
      in (\<lparr>amp1 = a1, amp2 = a2, freq = fr, wobbleFreq = wf, wobbleAmp = wa, phase = ph\<rparr>,
          i + 7))"

definition riverCenterX :: "noise_fn \<Rightarrow> real \<Rightarrow> river_profile \<Rightarrow> real \<Rightarrow> real" where
  "riverCenterX noise seed RIVER_PROFILE z =
     (let wobble = noise 0.0 (z * wobbleFreq RIVER_PROFILE) (seed + 200) * wobbleAmp RIVER_PROFILE
      in amp1 RIVER_PROFILE * sin (z * freq RIVER_PROFILE + phase RIVER_PROFILE) +
         amp2 RIVER_PROFILE *
           sin (z * freq RIVER_PROFILE * 2.17 + 1.1 + phase RIVER_PROFILE * 0.7) +
         wobble)"

section \<open>Biome profile\<close>

text \<open>
  The island loop of \<^verbatim>\<open>makeBiomeProfile\<close>:
  \<^verbatim>\<open>while (islands.length < countTarget && tries < 5000)\<close>. The arguments are the loop
  variables and the index of the next value of \<^verbatim>\<open>randWorld\<close>.
\<close>

function islands_loop :: "rand \<Rightarrow> int \<Rightarrow> island list \<Rightarrow> nat \<Rightarrow> nat \<Rightarrow> island list \<times> nat" where
  "islands_loop randWorld countTarget isls tries i =
     (if int (length isls) < countTarget \<and> tries < 5000 then
        (if hypot (lerp (- WORLD_half * 0.46) (WORLD_half * 0.46) (randWorld i))
                  (lerp (- WORLD_half * 0.46) (WORLD_half * 0.46) (randWorld (i + 1)))
              > WORLD_half * 0.47
         then islands_loop randWorld countTarget isls (tries + 1) (i + 2)
         else if list_ex (\<lambda>o'.
                   hypot (isl_x o' - lerp (- WORLD_half * 0.46) (WORLD_half * 0.46) (randWorld i))
                         (isl_z o' - lerp (- WORLD_half * 0.46) (WORLD_half * 0.46) (randWorld (i + 1)))
                     < (isl_r o' + lerp 10.0 26.0 (randWorld (i + 2))) * 0.78) isls
         then islands_loop randWorld countTarget isls (tries + 1) (i + 5)
         else islands_loop randWorld countTarget
                (isls @ [\<lparr>isl_x = lerp (- WORLD_half * 0.46) (WORLD_half * 0.46) (randWorld i),
                           isl_z = lerp (- WORLD_half * 0.46) (WORLD_half * 0.46) (randWorld (i + 1)),
                           isl_r = lerp 10.0 26.0 (randWorld (i + 2)),
                           isl_height = lerp 3.8 14.5 (randWorld (i + 3)),
                           isl_detail = lerp 0.25 1.0 (randWorld (i + 4)),
                           isl_seed = randWorld (i + 5) * 1000\<rparr>])
                (tries + 1) (i + 6))
      else (isls, i))"
  by pat_completeness auto
termination
  by (relation "measure (\<lambda>(randWorld, countTarget, isls, tries, i). 5000 - tries)") auto

declare islands_loop.simps [simp del]

text \<open>
  The pond loop: \<^verbatim>\<open>while (ponds.length < pondCount && tries < 650)\<close>. The two tests
  that end in \<^verbatim>\<open>continue\<close> before the radius is drawn (river bank, coast) are one
  disjunction.
\<close>

function ponds_loop ::
  "noise_fn \<Rightarrow> real \<Rightarrow> river_profile \<Rightarrow> rand \<Rightarrow> real \<times> real \<Rightarrow> real \<Rightarrow> real \<Rightarrow> int \<Rightarrow>
   pond list \<Rightarrow> nat \<Rightarrow> nat \<Rightarrow> pond list \<times> nat" where
  "ponds_loop noise seed RIVER_PROFILE randWorld cDir sPos sWidth pondCount pnds tries i =
     (if int (length pnds) < pondCount \<and> tries < 650 then
        (if \<bar>lerp (- WORLD_half * 0.42) (WORLD_half * 0.42) (randWorld i)
               - riverCenterX noise seed RIVER_PROFILE
                   (lerp (- WORLD_half * 0.42) (WORLD_half * 0.42) (randWorld (i + 1)))\<bar>
              < WORLD_riverBankWidth * 0.9 \<or>
            lerp (- WORLD_half * 0.42) (WORLD_half * 0.42) (randWorld i) * fst cDir
              + lerp (- WORLD_half * 0.42) (WORLD_half * 0.42) (randWorld (i + 1)) * snd cDir
                > sPos + sWidth * 0.55
         then ponds_loop noise seed RIVER_PROFILE randWorld cDir sPos sWidth pondCount pnds
                (tries + 1) (i + 2)
         else if list_ex (\<lambda>p.
                   hypot (pond_x p - lerp (- WORLD_half * 0.42) (WORLD_half * 0.42) (randWorld i))
                         (pond_z p - lerp (- WORLD_half * 0.42) (WORLD_half * 0.42) (randWorld (i + 1)))
                     < (pond_r p + lerp 6.5 14.5 (randWorld (i + 2))) * 1.25) pnds
         then ponds_loop noise seed RIVER_PROFILE randWorld cDir sPos sWidth pondCount pnds
                (tries + 1) (i + 5)
         else ponds_loop noise seed RIVER_PROFILE randWorld cDir sPos sWidth pondCount
                (pnds @ [\<lparr>pond_x = lerp (- WORLD_half * 0.42) (WORLD_half * 0.42) (randWorld i),
                           pond_z = lerp (- WORLD_half * 0.42) (WORLD_half * 0.42) (randWorld (i + 1)),
                           pond_r = lerp 6.5 14.5 (randWorld (i + 2)),
                           pond_depth = lerp 1.1 3.2 (randWorld (i + 3)),
                           pond_fill = lerp 0.35 1.05 (randWorld (i + 4)),
                           pond_level = 0\<rparr>])
                (tries + 1) (i + 5))
      else (pnds, i))"
  by pat_completeness auto
termination
  by (relation "measure (\<lambda>(noise, seed, RIVER_PROFILE, randWorld, cDir, sPos, sWidth, pondCount,
                           pnds, tries, i). 650 - tries)") auto

declare ponds_loop.simps [simp del]

text \<open>\<^verbatim>\<open>THREE.Vector2.normalize\<close>: \<^verbatim>\<open>divideScalar(this.length() || 1)\<close>.\<close>

definition vec2_normalize :: "real \<times> real \<Rightarrow> real \<times> real" where
  "vec2_normalize v =
     (let l = sqrt (fst v * fst v + snd v * snd v);
          d = (if l = 0 then 1 else l)
      in (fst v / d, snd v / d))"

definition makeBiomeProfile ::
  "noise_fn \<Rightarrow> real \<Rightarrow> river_profile \<Rightarrow> rand \<Rightarrow> string \<Rightarrow> nat \<Rightarrow> biome \<times> nat" where
  "makeBiomeProfile noise seed RIVER_PROFILE randWorld mode i =
     (if mode = ''miniIslands'' then
        (let sea = WORLD_waterLevel + lerp 0.6 1.15 (randWorld i);
             countTarget = 18 + \<lfloor>randWorld (i + 1) * 15\<rfloor>;
             res = islands_loop randWorld countTarget [] 0 (i + 2)
         in (\<lparr>kind = miniIslands, seaLevel = Some sea, islands = fst res,
              coastDir = (1, 0), shorePos = 0, shoreWidth = 1, coastDrop = 0,
              coastWaterLevel = sea, ponds = [], springIndex = - 1, fall = None\<rparr>,
             snd res))
      else
        (let coastAngle = randWorld i * pi * 2;
             cDir = vec2_normalize (cos coastAngle, sin coastAngle);
             sPos = lerp 0.12 0.28 (randWorld (i + 1)) * WORLD_half;
             sWidth = lerp 18 40 (randWorld (i + 2));
             cDrop = lerp 10 18 (randWorld (i + 3));
             cWaterLevel = WORLD_waterLevel - lerp 0.35 1.05 (randWorld (i + 4));
             pondCount = 2 + \<lfloor>randWorld (i + 5) * 3\<rfloor>;
             res = ponds_loop noise seed RIVER_PROFILE randWorld cDir sPos sWidth pondCount
                     [] 0 (i + 6);
             j = snd res;
             zW = lerp (- WORLD_half * 0.2) (WORLD_half * 0.2) (randWorld j);
             cxW = riverCenterX noise seed RIVER_PROFILE zW;
             side = (if randWorld (j + 1) < 0.5 then - 1 else 1);
             xW = cxW + side * lerp 18 34 (randWorld (j + 2));
             spring = \<lparr>pond_x = xW, pond_z = zW, pond_r = lerp 6.0 10.0 (randWorld (j + 3)),
                       pond_depth = lerp 1.4 2.8 (randWorld (j + 4)),
                       pond_fill = lerp 0.55 1.25 (randWorld (j + 5)), pond_level = 0\<rparr>;
             pnds = fst res @ [spring];
             fl = \<lparr>fall_x0 = xW, fall_z0 = zW, fall_x1 = cxW, fall_z1 = zW,
                   fall_width = lerp 1.8 3.3 (randWorld (j + 6)),
                   fall_depth = lerp 1.2 2.6 (randWorld (j + 7)),
                   fall_drop = lerp 8 14 (randWorld (j + 8))\<rparr>
         in (\<lparr>kind = mainland, seaLevel = None, islands = [],
              coastDir = cDir, shorePos = sPos, shoreWidth = sWidth, coastDrop = cDrop,
              coastWaterLevel = cWaterLevel, ponds = pnds,
              springIndex = int (length pnds) - 1, fall = Some fl\<rparr>,
             j + 9)))"

section \<open>Terrain profile\<close>

text \<open>The body of the loop \<^verbatim>\<open>for (let i = 0; i < macroCount; i++)\<close>: the feature pushed
  and the index of the next value of \<^verbatim>\<open>randWorld\<close>.\<close>

definition feature_draw :: "rand \<Rightarrow> terrain_style \<Rightarrow> nat \<Rightarrow> feature \<times> nat" where
  "feature_draw randWorld sty i =
     (let x = lerp (- WORLD_half * 0.65) (WORLD_half * 0.65) (randWorld i);
          z = lerp (- WORLD_half * 0.65) (WORLD_half * 0.65) (randWorld (i + 1));
          r0 = lerp 18 62 (randWorld (i + 2));
          amp = lerp 5 18 (randWorld (i + 3));
          c = (if sty = style_canyon
               then (if randWorld (i + 4) < 0.45
                     then (amp * - lerp 0.6 1.1 (randWorld (i + 5)), i + 6)
                     else (amp, i + 5))
               else (amp, i + 4));
          p = (if sty = style_plateau
               then (if randWorld (snd c) < 0.25 then (fst c * 0.45, snd c + 1)
                     else (fst c, snd c + 1))
               else c)
      in (\<lparr>feat_x = x, feat_z = z, feat_r = r0, feat_amp = fst p\<rparr>, snd p))"

text \<open>The loop itself; the third argument counts the iterations that remain.\<close>

fun features_loop :: "rand \<Rightarrow> terrain_style \<Rightarrow> nat \<Rightarrow> feature list \<Rightarrow> nat \<Rightarrow> feature list \<times> nat" where
  "features_loop randWorld sty 0 feats i = (feats, i)"
| "features_loop randWorld sty (Suc n) feats i =
     features_loop randWorld sty n (feats @ [fst (feature_draw randWorld sty i)])
       (snd (feature_draw randWorld sty i))"

text \<open>The search for the hero hill, \<^verbatim>\<open>for (let i = 0; i < 80; i++)\<close> with
  \<^verbatim>\<open>continue\<close> and \<^verbatim>\<open>break\<close>: \<open>None\<close> is \<^verbatim>\<open>peakOk == false\<close>.\<close>

fun peak_loop :: "rand \<Rightarrow> biome \<Rightarrow> nat \<Rightarrow> nat \<Rightarrow> (real \<times> real) option \<times> nat" where
  "peak_loop randWorld B 0 i = (None, i)"
| "peak_loop randWorld B (Suc n) i =
     (let x = lerp (- WORLD_half * 0.55) (WORLD_half * 0.55) (randWorld i);
          z = lerp (- WORLD_half * 0.55) (WORLD_half * 0.55) (randWorld (i + 1));
          coastCoord = x * fst (coastDir B) + z * snd (coastDir B)
      in if coastCoord > shorePos B - shoreWidth B * 0.35
         then peak_loop randWorld B n (i + 2)
         else (Some (x, z), i + 2))"

fun ridges_loop :: "rand \<Rightarrow> terrain_style \<Rightarrow> nat \<Rightarrow> ridge list \<Rightarrow> nat \<Rightarrow> ridge list \<times> nat" where
  "ridges_loop randWorld sty 0 rdgs i = (rdgs, i)"
| "ridges_loop randWorld sty (Suc n) rdgs i =
     (let px = lerp (- WORLD_half * 0.55) (WORLD_half * 0.55) (randWorld i);
          pz = lerp (- WORLD_half * 0.55) (WORLD_half * 0.55) (randWorld (i + 1));
          a = randWorld (i + 2) * pi * 2;
          dx = cos a;
          dz = sin a;
          width = lerp 10 28 (randWorld (i + 3));
          amp = (if sty = style_alpine then 10.0 else if sty = style_rolling then 7.0 else 6.0)
                * lerp 0.55 1.05 (randWorld (i + 4))
      in ridges_loop randWorld sty n
           (rdgs @ [\<lparr>ridge_px = px, ridge_pz = pz, ridge_dx = dx, ridge_dz = dz,
                      ridge_width = width, ridge_amp = amp\<rparr>]) (i + 5))"

text \<open>\<^verbatim>\<open>BIOME.islands.reduce((a, b) => (a.r > b.r ? a : b))\<close> on a non-empty array.\<close>

definition biggest_island :: "island \<Rightarrow> island list \<Rightarrow> island" where
  "biggest_island first rest = foldl (\<lambda>a b. if isl_r a > isl_r b then a else b) first rest"

definition makeTerrainProfile :: "rand \<Rightarrow> biome \<Rightarrow> nat \<Rightarrow> terrain_profile \<times> nat" where
  "makeTerrainProfile randWorld B i =
     (if kind B = miniIslands then
        (let pk = (case islands B of
                     [] \<Rightarrow> \<lparr>poi_x = 0, poi_z = 0, poi_r = 40\<rparr>
                   | first # rest \<Rightarrow>
                       (let big = biggest_island first rest
                        in \<lparr>poi_x = isl_x big, poi_z = isl_z big, poi_r = isl_r big * 1.25\<rparr>))
         in (\<lparr>style = style_islands, warpScale = 0.0075, warpAmp = 16, baseAmp = 0,
              ridgeAmp = 0, microAmp = 0, features = [], ridges = [], terraceStep = 2,
              terraceStrength = 0, peak = pk\<rparr>, i))
      else
        (let r = randWorld i;
             sty = (if r < 0.26 then style_alpine else if r < 0.54 then style_plateau
                    else if r < 0.78 then style_canyon else style_rolling);
             wScale = lerp 0.0048 0.0092 (randWorld (i + 1));
             wAmp = lerp 10 26 (randWorld (i + 2))
                    * (if sty = style_alpine then 1.15 else if sty = style_canyon then 1.05 else 0.95);
             bAmp = (if sty = style_canyon then lerp 5.0 7.5 (randWorld (i + 3))
                     else if sty = style_alpine then lerp 7.0 10.5 (randWorld (i + 3))
                     else lerp 5.5 9.0 (randWorld (i + 3)));
             rAmp = (if sty = style_alpine then lerp 3.6 6.4 (randWorld (i + 4))
                     else if sty = style_plateau then lerp 2.2 4.4 (randWorld (i + 4))
                     else lerp 2.6 5.2 (randWorld (i + 4)));
             mAmp = lerp 0.12 0.42 (randWorld (i + 5));
             macroCount = \<lfloor>lerp 3 8 (randWorld (i + 6))\<rfloor>;
             fs = features_loop randWorld sty (nat macroCount) [] (i + 7);
             pl = peak_loop randWorld B 80 (snd fs);
             pk = (case fst pl of
                     Some (x, z) \<Rightarrow> (x, z, snd pl)
                   | None \<Rightarrow>
                       (lerp (- WORLD_half * 0.45) (WORLD_half * 0.45) (randWorld (snd pl)),
                        lerp (- WORLD_half * 0.45) (WORLD_half * 0.45) (randWorld (snd pl + 1)),
                        snd pl + 2));
             peakX = fst pk;
             peakZ = fst (snd pk);
             j = snd (snd pk);
             hero = \<lparr>feat_x = peakX, feat_z = peakZ, feat_r = lerp 34 56 (randWorld j),
                     feat_amp = lerp 18 32 (randWorld (j + 1))
                                * (if sty = style_alpine then 1.25 else 1.0)\<rparr>;
             feats = fst fs @ [hero];
             peakRadius = feat_r (last feats);
             ridgeCount = \<lfloor>lerp 1 3 (randWorld (j + 2))\<rfloor>;
             rs = ridges_loop randWorld sty (nat ridgeCount) [] (j + 3);
             k = snd rs;
             tStep = (if sty = style_plateau then lerp 1.2 2.8 (randWorld k)
                      else if sty = style_canyon then lerp 0.9 2.2 (randWorld k)
                      else lerp 0.6 1.9 (randWorld k));
             tStrength = (if sty = style_plateau then lerp 0.15 0.55 (randWorld (k + 1))
                          else if sty = style_canyon then lerp 0.08 0.35 (randWorld (k + 1))
                          else lerp 0.05 0.28 (randWorld (k + 1)))
         in (\<lparr>style = sty, warpScale = wScale, warpAmp = wAmp, baseAmp = bAmp,
              ridgeAmp = rAmp, microAmp = mAmp, features = feats, ridges = fst rs,
              terraceStep = tStep, terraceStrength = tStrength,
              peak = \<lparr>poi_x = peakX, poi_z = peakZ, poi_r = peakRadius\<rparr>\<rparr>, k + 2)))"

section \<open>Ecology: points of interest\<close>

text \<open>The search for the volcano, \<^verbatim>\<open>for (let i = 0; i < 160; i++)\<close>, on the generator
  \<^verbatim>\<open>rng\<close> local to \<^verbatim>\<open>ECO\<close>.\<close>

fun volcano_loop ::
  "noise_fn \<Rightarrow> real \<Rightarrow> river_profile \<Rightarrow> biome \<Rightarrow> rand \<Rightarrow> nat \<Rightarrow> nat \<Rightarrow> (real \<times> real) option \<times> nat" where
  "volcano_loop noise seed RIVER_PROFILE B rng 0 i = (None, i)"
| "volcano_loop noise seed RIVER_PROFILE B rng (Suc n) i =
     (let x = lerp (- WORLD_half * 0.5) (WORLD_half * 0.5) (rng i);
          z = lerp (- WORLD_half * 0.5) (WORLD_half * 0.5) (rng (i + 1))
      in if kind B \<noteq> miniIslands \<and>
            (x * fst (coastDir B) + z * snd (coastDir B) > shorePos B - shoreWidth B * 0.35 \<or>
             \<bar>x - riverCenterX noise seed RIVER_PROFILE z\<bar> < WORLD_riverBankWidth * 0.9)
         then volcano_loop noise seed RIVER_PROFILE B rng n (i + 2)
         else (Some (x, z), i + 2))"

fun ruins_loop ::
  "noise_fn \<Rightarrow> real \<Rightarrow> river_profile \<Rightarrow> biome \<Rightarrow> rand \<Rightarrow> nat \<Rightarrow> nat \<Rightarrow> (real \<times> real) option \<times> nat" where
  "ruins_loop noise seed RIVER_PROFILE B rng 0 i = (None, i)"
| "ruins_loop noise seed RIVER_PROFILE B rng (Suc n) i =
     (let x = lerp (- WORLD_half * 0.55) (WORLD_half * 0.55) (rng i);
          z = lerp (- WORLD_half * 0.55) (WORLD_half * 0.55) (rng (i + 1))
      in if hypot x z > WORLD_half * 0.46 \<or>
            (kind B \<noteq> miniIslands \<and>
             (x * fst (coastDir B) + z * snd (coastDir B) > shorePos B + shoreWidth B * 0.65 \<or>
              \<bar>x - riverCenterX noise seed RIVER_PROFILE z\<bar> < WORLD_riverBankWidth * 0.85))
         then ruins_loop noise seed RIVER_PROFILE B rng n (i + 2)
         else (Some (x, z), i + 2))"

text \<open>The placement part of the \<^verbatim>\<open>ECO\<close> initialiser; \<open>worldSeed\<close> is the unsigned 32-bit
  world seed, \<^verbatim>\<open>worldSeed ^ 0x6f3a2c91\<close> its exclusive or as a signed 32-bit integer.\<close>

definition makeECO :: "noise_fn \<Rightarrow> real \<Rightarrow> river_profile \<Rightarrow> biome \<Rightarrow> u32 \<Rightarrow> eco \<times> nat" where
  "makeECO noise seed RIVER_PROFILE B worldSeed =
     (let rng = mulberry32_seq (mulberry32 (sint (worldSeed XOR 0x6f3a2c91)));
          vl = volcano_loop noise seed RIVER_PROFILE B rng 160 0;
          v = (case fst vl of
                 Some (x, z) \<Rightarrow> (x, z, snd vl)
               | None \<Rightarrow>
                   (lerp (- WORLD_half * 0.35) (WORLD_half * 0.35) (rng (snd vl)),
                    lerp (- WORLD_half * 0.35) (WORLD_half * 0.35) (rng (snd vl + 1)),
                    snd vl + 2));
          j = snd (snd v);
          volc = \<lparr>poi_x = fst v, poi_z = fst (snd v), poi_r = lerp 44 70 (rng j)\<rparr>;
          rl = ruins_loop noise seed RIVER_PROFILE B rng 220 (j + 1);
          r = (case fst rl of
                 Some (x, z) \<Rightarrow> (x, z, snd rl)
               | None \<Rightarrow>
                   (lerp (- WORLD_half * 0.4) (WORLD_half * 0.4) (rng (snd rl)),
                    lerp (- WORLD_half * 0.4) (WORLD_half * 0.4) (rng (snd rl + 1)),
                    snd rl + 2));
          k = snd (snd r);
          ruin = \<lparr>poi_x = fst r, poi_z = fst (snd r), poi_r = lerp 10 16 (rng k)\<rparr>
      in (\<lparr>volcano = volc, ruins = ruin\<rparr>, k + 1))"

section \<open>The world generator object\<close>

text \<open>The values that the functions returned by \<^verbatim>\<open>createWorldGen\<close> close over.\<close>

record worldgen =
  noise :: noise_fn
  seed :: real
  BIOME :: biome
  TERRAIN_PROFILE :: terrain_profile
  ECO :: eco
  RIVER_PROFILE :: river_profile

text \<open>The exported closure \<^verbatim>\<open>riverCenterX(z)\<close>.\<close>

abbreviation riverX :: "worldgen \<Rightarrow> real \<Rightarrow> real" where
  "riverX W z \<equiv> riverCenterX (noise W) (seed W) (RIVER_PROFILE W) z"

definition getWaterLevel :: "worldgen \<Rightarrow> real" where
  "getWaterLevel W =
     (if kind (BIOME W) = miniIslands then the (seaLevel (BIOME W)) else WORLD_waterLevel)"

section \<open>Ecology sampler\<close>

definition n01 :: "worldgen \<Rightarrow> real \<Rightarrow> real \<Rightarrow> real \<Rightarrow> real \<Rightarrow> real" where
  "n01 W x z scale off = clamp (noise W (x * scale) (z * scale) (seed W + off) * 0.5 + 0.5) 0 1"

definition coastCoord :: "worldgen \<Rightarrow> real \<Rightarrow> real \<Rightarrow> real" where
  "coastCoord W x z = x * fst (coastDir (BIOME W)) + z * snd (coastDir (BIOME W))"

definition distanceToWater :: "worldgen \<Rightarrow> real \<Rightarrow> real \<Rightarrow> real" where
  "distanceToWater W x z =
     (let best0 = 1000000000;
          best1 =
            (if kind (BIOME W) = miniIslands
             then min best0 (max 0 (hypot x z - WORLD_half * 0.46) * 0.85)
             else (let dRiver = max 0 (\<bar>x - riverX W z\<bar> - WORLD_riverWidth * 0.55);
                       dCoast = \<bar>coastCoord W x z - shorePos (BIOME W)\<bar>
                   in min (min best0 dRiver) dCoast))
      in foldl (\<lambda>best p. min best (max 0 (hypot (x - pond_x p) (z - pond_z p) - pond_r p)))
           best1 (ponds (BIOME W)))"

definition waterProximity01 :: "worldgen \<Rightarrow> real \<Rightarrow> real \<Rightarrow> real" where
  "waterProximity01 W x z =
     (let d = distanceToWater W x z in clamp (exp (- (d * d) / (2 * 26 * 26))) 0 1)"

definition temperature01 :: "worldgen \<Rightarrow> real \<Rightarrow> real \<Rightarrow> real \<Rightarrow> real" where
  "temperature01 W x z y =
     (let lat01 = clamp ((z + WORLD_half) / WORLD_size) 0 1;
          base = 0.68 + (0.5 - lat01) * 0.28;
          n = n01 W x z 0.0048 9101 * 0.24 + n01 W x z 0.011 9102 * 0.12;
          alt = smoothstep 6.0 22.0 y
      in clamp (base + (n - 0.18) - alt * 0.42) 0 1)"

definition moisture01 :: "worldgen \<Rightarrow> real \<Rightarrow> real \<Rightarrow> real \<Rightarrow> real" where
  "moisture01 W x z y =
     (let base = n01 W x z 0.0046 9201 * 0.65 + n01 W x z 0.014 9202 * 0.35;
          water = waterProximity01 W x z *
                  (0.35 + 0.65 * (1.0 - smoothstep (getWaterLevel W + 1.0) (getWaterLevel W + 8.0) y));
          ridge = \<bar>noise W (x * 0.006) (z * 0.006) (seed W + 9301)\<bar> powr 1.5;
          rainShadow = ridge * 0.15
      in clamp (base * 0.82 + water * 0.55 - rainShadow) 0 1)"

definition geology01 :: "worldgen \<Rightarrow> real \<Rightarrow> real \<Rightarrow> real" where
  "geology01 W x z =
     (let g = n01 W x z 0.0052 9401 * 0.7 + n01 W x z 0.018 9402 * 0.3;
          dV = hypot (x - poi_x (volcano (ECO W))) (z - poi_z (volcano (ECO W)));
          v = smoothstep (poi_r (volcano (ECO W)) * 1.15) (poi_r (volcano (ECO W)) * 0.25) dV
      in clamp (lerp g 1.0 (v * 0.55)) 0 1)"

text \<open>The object \<^verbatim>\<open>out\<close> that \<^verbatim>\<open>sampleTo\<close> fills and returns.\<close>

record eco_sample =
  temp :: real
  moist :: real
  geo :: real
  dry :: real
  wetland :: real
  alpine :: real
  volcanic :: real
  clay :: real
  riparian :: real
  scree :: real

text \<open>\<^verbatim>\<open>sampleTo(out, x, z, y, normalY = 1.0)\<close>: every field of \<^verbatim>\<open>out\<close> is overwritten, so
  the result does not depend on the object passed in; an omitted \<^verbatim>\<open>normalY\<close> is \<open>None\<close>.\<close>

definition sampleTo :: "worldgen \<Rightarrow> real \<Rightarrow> real \<Rightarrow> real \<Rightarrow> real option \<Rightarrow> eco_sample" where
  "sampleTo W x z y normalYOpt =
     (let normalY = (case normalYOpt of None \<Rightarrow> 1.0 | Some v \<Rightarrow> v);
          t = temperature01 W x z y;
          m = moisture01 W x z y;
          g = geology01 W x z;
          wetNear = waterProximity01 W x z;
          slope = clamp (1.0 - normalY) 0 1;
          flat = clamp (max normalY 0 powr 1.35) 0 1;
          alt = smoothstep 6.5 16.0 y;
          dryness = clamp ((1.0 - m) * 0.75 + (0.5 - wetNear) * 0.15) 0 1;
          wetl = clamp (m * flat *
                   (1.0 - smoothstep (getWaterLevel W + 1.4) (getWaterLevel W + 8.5) y)) 0 1;
          alp = clamp ((1.0 - t) * 0.65 + alt * 0.55) 0 1;
          volc = clamp (smoothstep 0.64 0.92 g *
                   (0.35 + 0.65 * smoothstep (poi_r (volcano (ECO W)) * 1.05)
                                     (poi_r (volcano (ECO W)) * 0.22)
                                     (hypot (x - poi_x (volcano (ECO W)))
                                            (z - poi_z (volcano (ECO W)))))) 0 1;
          cl = clamp (smoothstep 0.25 0.55 dryness * smoothstep 0.22 0.62 (1.0 - g) *
                 (0.55 + 0.45 * (1.0 - slope))) 0 1;
          rip = (if kind (BIOME W) = miniIslands then 0
                 else clamp (1.0 - smoothstep (WORLD_riverWidth * 1.15) (WORLD_riverBankWidth * 1.15)
                                     \<bar>x - riverX W z\<bar>) 0 1);
          scr = clamp (smoothstep 0.40 0.78 slope * smoothstep 0.40 0.95 (1.0 - m)) 0 1
      in \<lparr>temp = t, moist = m, geo = g, dry = dryness, wetland = wetl, alpine = alp,
          volcanic = volc, clay = cl, riparian = rip, scree = scr\<rparr>)"

section \<open>Terrain height\<close>

text \<open>
  \<^verbatim>\<open>terrainHeightRaw\<close> is one long function in the source; its blocks are named here after
  the comments that introduce them, and composed in the source's order below.
\<close>

text \<open>The world-edge fade that ends both branches of \<^verbatim>\<open>terrainHeightRaw\<close>.\<close>

definition edgeFade :: "real \<Rightarrow> real \<Rightarrow> real \<Rightarrow> real" where
  "edgeFade x z h =
     (let edge = smoothstep (WORLD_size * 0.42) (WORLD_size * 0.5) (hypot x z)
      in lerp h (- 9.0) edge)"

text \<open>The body of \<^verbatim>\<open>for (const isl of BIOME.islands)\<close>.\<close>

definition raiseIsland :: "worldgen \<Rightarrow> real \<Rightarrow> real \<Rightarrow> real \<Rightarrow> island \<Rightarrow> real" where
  "raiseIsland W xw zw h isle =
     (let sea = the (seaLevel (BIOME W));
          dx = xw - isl_x isle;
          dz = zw - isl_z isle;
          d = hypot dx dz;
          t = 1 - smoothstep (isl_r isle * 0.55) (isl_r isle) d
      in if t \<le> 0 then h
         else (let n = noise W ((xw + isl_seed isle) * 0.12) ((zw - isl_seed isle) * 0.12)
                         (seed W + 400) * 0.5 + 0.5;
                   shape = t powr 1.55 * (0.78 + 0.22 * n * isl_detail isle);
                   beachShelf = (1 - smoothstep (isl_r isle * 0.72) (isl_r isle * 1.08) d) * 0.45;
                   target = sea - 0.55 + isl_height isle * shape + beachShelf
               in max h target))"

text \<open>The branch \<^verbatim>\<open>if (BIOME.kind === "miniIslands") { ... return h; }\<close>: the value of
  \<^verbatim>\<open>h\<close> after the island loop, and the value returned.\<close>

definition islandsSurface :: "worldgen \<Rightarrow> real \<Rightarrow> real \<Rightarrow> real" where
  "islandsSurface W x z =
     (let wx = noise W (x * 0.0065) (z * 0.0065) (seed W + 101) * 18.0;
          wz = noise W (x * 0.0065) (z * 0.0065) (seed W + 202) * 18.0;
          xw = x + wx;
          zw = z + wz;
          dune = noise W (xw * 0.03) (zw * 0.03) (seed W + 901) * 0.55 +
                 noise W (xw * 0.09) (zw * 0.09) (seed W + 902) * 0.25;
          h0 = lerp (- 7.2) (- 8.6)
                 (smoothstep (WORLD_half * 0.42) (WORLD_half * 0.5) (hypot x z)) + dune
      in foldl (raiseIsland W xw zw) h0 (islands (BIOME W)))"

definition islandsHeightRaw :: "worldgen \<Rightarrow> real \<Rightarrow> real \<Rightarrow> real" where
  "islandsHeightRaw W x z = edgeFade x z (islandsSurface W x z)"

text \<open>Domain warp of the mainland branch: the pair \<^verbatim>\<open>(xw, zw)\<close>.\<close>

definition warp :: "worldgen \<Rightarrow> real \<Rightarrow> real \<Rightarrow> real \<times> real" where
  "warp W x z =
     (let wx = noise W (x * warpScale (TERRAIN_PROFILE W)) (z * warpScale (TERRAIN_PROFILE W))
                 (seed W + 101) * warpAmp (TERRAIN_PROFILE W);
          wz = noise W (x * warpScale (TERRAIN_PROFILE W)) (z * warpScale (TERRAIN_PROFILE W))
                 (seed W + 202) * warpAmp (TERRAIN_PROFILE W)
      in (x + wx, z + wz))"

text \<open>The constant \<^verbatim>\<open>base\<close>.\<close>

definition base :: "worldgen \<Rightarrow> real \<Rightarrow> real \<Rightarrow> real" where
  "base W xw zw =
     (let n0 = noise W (xw * 0.018) (zw * 0.018) (seed W);
          n1 = noise W (xw * 0.042) (zw * 0.042) (seed W + 10);
          n2 = noise W (xw * 0.088) (zw * 0.088) (seed W + 20);
          n3 = noise W (xw * 0.25) (zw * 0.25) (seed W + 60)
      in (n0 * 1.25 + n1 * 0.75 + n2 * 0.35 + n3 * 0.12) / 2.47)"

text \<open>Macro landforms (hills / bowls): the value of \<^verbatim>\<open>macro\<close> after the loop.\<close>

definition macroLandforms :: "worldgen \<Rightarrow> real \<Rightarrow> real \<Rightarrow> real" where
  "macroLandforms W xw zw =
     foldl (\<lambda>macro f.
              let dx = xw - feat_x f;
                  dz = zw - feat_z f;
                  d2 = dx * dx + dz * dz;
                  rr = feat_r f * feat_r f
              in macro + feat_amp f * exp (- d2 / (2 * rr)))
       0 (features (TERRAIN_PROFILE W))"

text \<open>Ridge lines (rock formations / escarpments): the value of \<^verbatim>\<open>ridgeLine\<close>.\<close>

definition ridgeLines :: "worldgen \<Rightarrow> real \<Rightarrow> real \<Rightarrow> real" where
  "ridgeLines W xw zw =
     foldl (\<lambda>ridgeLine r.
              let vx = xw - ridge_px r;
                  vz = zw - ridge_pz r;
                  dist = \<bar>vx * (- ridge_dz r) + vz * ridge_dx r\<bar>;
                  t = exp (- (dist * dist) / (2 * ridge_width r * ridge_width r))
              in ridgeLine + ridge_amp r * t)
       0 (ridges (TERRAIN_PROFILE W))"

text \<open>Terracing (subtle).\<close>

definition terracing :: "worldgen \<Rightarrow> real \<Rightarrow> real" where
  "terracing W h =
     (let step = terraceStep (TERRAIN_PROFILE W);
          terr = real_of_int \<lfloor>h / step\<rfloor> * step
      in lerp h terr (terraceStrength (TERRAIN_PROFILE W)))"

text \<open>Sandy coast: pull one side of the world down towards sea level.\<close>

definition sandyCoast :: "worldgen \<Rightarrow> real \<Rightarrow> real \<Rightarrow> real \<Rightarrow> real" where
  "sandyCoast W x z h =
     (let cc = x * fst (coastDir (BIOME W)) + z * snd (coastDir (BIOME W));
          coastT = smoothstep (shorePos (BIOME W) - shoreWidth (BIOME W) * 0.45)
                     (shorePos (BIOME W) + shoreWidth (BIOME W)) cc
      in if coastT > 0.0001
         then (let dune = noise W (x * 0.06) (z * 0.06) (seed W + 901) * 1.15 +
                          noise W (x * 0.12) (z * 0.12) (seed W + 902) * 0.55;
                   seaTarget = coastWaterLevel (BIOME W) + dune * (0.35 + 0.65 * coastT);
                   h1 = lerp h seaTarget (coastT * coastT)
               in h1 - coastT * coastDrop (BIOME W) * 0.22)
         else h)"

text \<open>Volcanic region: crater bowl + rim.\<close>

definition volcanicRegion :: "worldgen \<Rightarrow> real \<Rightarrow> real \<Rightarrow> real \<Rightarrow> real" where
  "volcanicRegion W xw zw h =
     (let dx = xw - poi_x (volcano (ECO W));
          dz = zw - poi_z (volcano (ECO W));
          d = hypot dx dz;
          r = poi_r (volcano (ECO W));
          bowlT = 1.0 - smoothstep (r * 0.18) (r * 0.95) d
      in if bowlT > 0.001
         then (let u = clamp (d / (r * 0.95)) 0 1;
                   bowl = (1.0 - u) * (1.0 - u);
                   rimW = r * 0.12;
                   rim = exp (- ((d - r * 0.55) * (d - r * 0.55)) / (2 * rimW * rimW));
                   n = noise W (xw * 0.06) (zw * 0.06) (seed W + 9701) * 0.5 + 0.5;
                   h1 = h + rim * (2.0 + 2.2 * n);
                   h2 = h1 - bowl * (4.0 + 3.0 * (1.0 - n)) * bowlT;
                   stepV = 0.65;
                   strengthV = bowlT * 0.22
               in lerp h2 (real_of_int \<lfloor>h2 / stepV\<rfloor> * stepV) strengthV)
         else h)"

text \<open>Waterfall ravine from spring pond to the river.\<close>

definition waterfallRavine :: "worldgen \<Rightarrow> real \<Rightarrow> real \<Rightarrow> real \<Rightarrow> real" where
  "waterfallRavine W xw zw h =
     (case fall (BIOME W) of
        None \<Rightarrow> h
      | Some fl \<Rightarrow>
          (let ax = fall_x0 fl;
               az = fall_z0 fl;
               bx = fall_x1 fl;
               bz = fall_z1 fl;
               abx = bx - ax;
               abz = bz - az;
               abLen2 = abx * abx + abz * abz + 0.000001;
               apx = xw - ax;
               apz = zw - az;
               t = clamp ((apx * abx + apz * abz) / abLen2) 0 1;
               cx = ax + abx * t;
               cz = az + abz * t;
               dist = hypot (xw - cx) (zw - cz);
               g = exp (- (dist * dist) / (2 * fall_width fl * fall_width fl));
               carve = fall_depth fl * g * (0.25 + 0.75 * smoothstep 0.0 1.0 t);
               h1 = h - carve;
               lip = smoothstep 0.0 0.12 t * (1.0 - smoothstep 0.12 0.22 t)
           in h1 - fall_drop fl * lip * g))"

text \<open>Ponds: carve small basins (including the spring pond).\<close>

definition pondBasins :: "worldgen \<Rightarrow> real \<Rightarrow> real \<Rightarrow> real \<Rightarrow> real" where
  "pondBasins W xw zw h =
     foldl (\<lambda>h p.
              let dx = xw - pond_x p;
                  dz = zw - pond_z p;
                  d = hypot dx dz;
                  r0 = pond_r p;
                  t = exp (- (d * d) / (2 * r0 * r0));
                  h1 = h - pond_depth p * t;
                  rimW = r0 * 0.22;
                  rim = exp (- ((d - r0) * (d - r0)) / (2 * rimW * rimW))
              in h1 + rim * pond_depth p * 0.18)
       h (ponds (BIOME W))"

text \<open>The mainland part of \<^verbatim>\<open>terrainHeightRaw\<close> (everything after the island branch).\<close>

definition mainlandHeightRaw :: "worldgen \<Rightarrow> real \<Rightarrow> real \<Rightarrow> real" where
  "mainlandHeightRaw W x z =
     (let xw = fst (warp W x z);
          zw = snd (warp W x z);
          ridges' = \<bar>noise W (xw * 0.011) (zw * 0.011) (seed W + 40)\<bar> powr 1.85;
          micro = noise W (xw * 0.33) (zw * 0.33) (seed W + 80) * microAmp (TERRAIN_PROFILE W);
          h0 = base W xw zw * baseAmp (TERRAIN_PROFILE W)
               + ridges' * ridgeAmp (TERRAIN_PROFILE W) + micro;
          h1 = h0 + macroLandforms W xw zw;
          h2 = h1 + ridgeLines W xw zw;
          h3 = terracing W h2;
          h4 = sandyCoast W x z h3;
          h5 = volcanicRegion W xw zw h4;
          h6 = waterfallRavine W xw zw h5;
          h7 = pondBasins W xw zw h6
      in edgeFade x z h7)"

definition terrainHeightRaw :: "worldgen \<Rightarrow> real \<Rightarrow> real \<Rightarrow> real" where
  "terrainHeightRaw W x z =
     (if kind (BIOME W) = miniIslands then islandsHeightRaw W x z else mainlandHeightRaw W x z)"

definition terrainHeight :: "worldgen \<Rightarrow> real \<Rightarrow> real \<Rightarrow> real" where
  "terrainHeight W x z =
     (let h = terrainHeightRaw W x z
      in if kind (BIOME W) = miniIslands then h
         else (let cx = riverX W z;
                   d = \<bar>x - cx\<bar>
               in if d < WORLD_riverBankWidth
                  then (let t = 1 - smoothstep 0 WORLD_riverBankWidth d;
                            depth = WORLD_riverDepth * t * t;
                            h1 = h - depth;
                            bed = WORLD_waterLevel - 0.55;
                            channel = 1 - smoothstep 0 (WORLD_riverWidth * 0.55) d
                        in min h1 (lerp h1 bed channel))
                  else h))"

section \<open>createWorldGen\<close>

datatype error = Error string

text \<open>
  The body of \<^verbatim>\<open>createWorldGen\<close> after its two argument checks: the world generator
  object, the number of calls made to \<^verbatim>\<open>randWorld\<close> and the number of calls made to the
  generator local to \<^verbatim>\<open>ECO\<close>. \<open>biomeMode = None\<close> stands for an argument that is not a
  string.
\<close>

definition constructWorld :: "noise_fn \<Rightarrow> u32 \<Rightarrow> rand \<Rightarrow> string option \<Rightarrow> worldgen \<times> nat \<times> nat" where
  "constructWorld noiseImpl worldSeed randWorld biomeMode =
     (let biomeModeSafe = (case biomeMode of Some m \<Rightarrow> m | None \<Rightarrow> ''mainland'');
          sd = real (unat worldSeed) * 0.000123 + 12.345;
          rp = makeRiverProfile randWorld sd 0;
          b = makeBiomeProfile noiseImpl sd (fst rp) randWorld biomeModeSafe (snd rp);
          tp = makeTerrainProfile randWorld (fst b) (snd b);
          e = makeECO noiseImpl sd (fst rp) (fst b) worldSeed
      in (\<lparr>noise = noiseImpl, seed = sd, BIOME = fst b, TERRAIN_PROFILE = fst tp,
           ECO = fst e, RIVER_PROFILE = fst rp\<rparr>, snd tp, snd e))"

text \<open>\<open>None\<close> for \<open>worldSeed\<close> is a value that is not a finite number, \<open>None\<close> for
  \<open>randWorld\<close> a value that is not a function.\<close>

definition createWorldGen ::
  "noise_fn \<Rightarrow> u32 option \<Rightarrow> rand option \<Rightarrow> string option \<Rightarrow> error + worldgen" where
  "createWorldGen noiseImpl worldSeed randWorld biomeMode =
     (case worldSeed of
        None \<Rightarrow> Inl (Error ''createWorldGen: missing worldSeed'')
      | Some ws \<Rightarrow>
          (case randWorld of
             None \<Rightarrow> Inl (Error ''createWorldGen: missing randWorld'')
           | Some rw \<Rightarrow> Inr (fst (constructWorld noiseImpl ws rw biomeMode))))"

section \<open>Example inputs\<close>

text \<open>A noise function for the examples: the constant 0, the value of gradient noise at the
  points of the integer lattice.\<close>

definition flatNoise :: noise_fn where
  "flatNoise x y z = 0"

definition exampleIslands :: worldgen where
  "exampleIslands =
     fst (constructWorld flatNoise 777 (mulberry32_seq (mulberry32 777)) (Some ''miniIslands''))"

definition exampleMainland :: worldgen where
  "exampleMainland =
     fst (constructWorld flatNoise 12345 (mulberry32_seq (mulberry32 12345)) (Some ''mainland''))"

section \<open>Predicates used in the statements\<close>

text \<open>The separation that the spec asks of two ponds: the distance between the centres is
  at least the sum of the radii times the margin factor 1.25 of the pond loop.\<close>

definition pondsApart :: "pond \<Rightarrow> pond \<Rightarrow> bool" where
  "pondsApart a b \<longleftrightarrow>
     hypot (pond_x a - pond_x b) (pond_z a - pond_z b) \<ge> (pond_r a + pond_r b) * 1.25"

text \<open>No two ponds at different positions of a list overlap.\<close>

definition pairwiseApart :: "pond list \<Rightarrow> bool" where
  "pairwiseApart ps \<longleftrightarrow>
     (\<forall>i j. i < length ps \<and> j < length ps \<and> i \<noteq> j \<longrightarrow> pondsApart (ps ! i) (ps ! j))"

text \<open>The sampling ranges of an island descriptor.\<close>

definition islandInRange :: "island \<Rightarrow> bool" where
  "islandInRange il \<longleftrightarrow>
     10 \<le> isl_r il \<and> isl_r il \<le> 26 \<and> 3.8 \<le> isl_height il \<and> isl_height il \<le> 14.5"

text \<open>A sequence of values for \<^verbatim>\<open>randWorld\<close>, all in the unit interval, and the mainland
  world built from it: two ponds are placed by the loop, then the spring pond.\<close>

definition pondStream :: rand where
  "pondStream k =
     (if k = 13 then 41 / 64
      else if k = 14 \<or> k = 23 \<or> k = 24 then 1 / 2
      else if k = 15 \<or> k = 25 then 15 / 16
      else if k = 26 then 3 / 4
      else 0)"

definition pondWorld :: worldgen where
  "pondWorld = fst (constructWorld flatNoise 1 pondStream (Some ''mainland''))"

text \<open>The octave table of the spec (frequency, weight), with the offset that the code adds to
  the third noise coordinate, and the weighted sum normalised by the weight sum.\<close>

definition spec_octaves :: "(real \<times> real \<times> real) list" where
  "spec_octaves = [(0.018, 1.25, 0), (0.042, 0.75, 10), (0.088, 0.35, 20), (0.25, 0.12, 60)]"

definition spec_octave_blend :: "worldgen \<Rightarrow> real \<Rightarrow> real \<Rightarrow> real" where
  "spec_octave_blend W xw zw =
     (\<Sum>(f, w, off) \<leftarrow> spec_octaves. w * noise W (xw * f) (zw * f) (seed W + off))
     / (\<Sum>(f, w, off) \<leftarrow> spec_octaves. w)"

text \<open>The parts of the crater, for a volcano of radius \<open>r\<close> and a point at distance \<open>d\<close> from
  its centre: the strength of the bowl, the bowl with its quadratic falloff, the rim bump, and
  the height after bowl and rim, before the basalt steps.\<close>

definition craterDistance :: "worldgen \<Rightarrow> real \<Rightarrow> real \<Rightarrow> real" where
  "craterDistance W xw zw =
     hypot (xw - poi_x (volcano (ECO W))) (zw - poi_z (volcano (ECO W)))"

definition craterBowlT :: "real \<Rightarrow> real \<Rightarrow> real" where
  "craterBowlT r d = 1 - smoothstep (r * 0.18) (r * 0.95) d"

definition craterBowl :: "real \<Rightarrow> real \<Rightarrow> real" where
  "craterBowl r d = (1 - d / (r * 0.95)) * (1 - d / (r * 0.95))"

definition craterRim :: "real \<Rightarrow> real \<Rightarrow> real" where
  "craterRim r d = exp (- ((d - r * 0.55) * (d - r * 0.55)) / (2 * (r * 0.12) * (r * 0.12)))"

definition craterBowlRim :: "worldgen \<Rightarrow> real \<Rightarrow> real \<Rightarrow> real \<Rightarrow> real" where
  "craterBowlRim W xw zw h =
     (let r = poi_r (volcano (ECO W));
          d = craterDistance W xw zw;
          n = noise W (xw * 0.06) (zw * 0.06) (seed W + 9701) * 0.5 + 0.5
      in h + craterRim r d * (2 + 2.2 * n)
           - craterBowl r d * (4 + 3 * (1 - n)) * craterBowlT r d)"

section \<open>Properties of the helpers\<close>

lemma clamp_01: "0 \<le> clamp v 0 1 \<and> clamp v 0 1 \<le> 1"
  by (simp add: clamp_def)

lemma smoothstep_range: "0 \<le> smoothstep a b x \<and> smoothstep a b x \<le> 1"
proof -
  define t where "t = clamp ((x - a) / (b - a)) 0 1"
  have t: "0 \<le> t" "t \<le> 1" using clamp_01 by (simp_all add: t_def)
  have "1 - t * t * (3 - 2 * t) = (1 - t) * (1 - t) * (2 * t + 1)" by (simp add: algebra_simps)
  moreover have "0 \<le> (1 - t) * (1 - t) * (2 * t + 1)" using t by simp
  moreover have "0 \<le> t * t * (3 - 2 * t)" using t by simp
  ultimately show ?thesis by (simp add: smoothstep_def t_def Let_def)
qed

lemma smoothstep_one: "a < b \<Longrightarrow> b \<le> x \<Longrightarrow> smoothstep a b x = 1"
  by (simp add: smoothstep_def clamp_def Let_def min_def max_def)

lemma smoothstep_zero: "a < b \<Longrightarrow> x \<le> a \<Longrightarrow> smoothstep a b x = 0"
proof -
  assume h: "a < b" "x \<le> a"
  then have "(x - a) / (b - a) \<le> 0" by (simp add: divide_nonpos_pos)
  then have "clamp ((x - a) / (b - a)) 0 1 = 0" by (simp add: clamp_def)
  then show ?thesis by (simp add: smoothstep_def)
qed

lemma lerp_one: "lerp a b 1 = b"
  by (simp add: lerp_def)

lemma lerp_zero: "lerp a b 0 = a"
  by (simp add: lerp_def)

lemma lerp_range: "a \<le> b \<Longrightarrow> 0 \<le> t \<Longrightarrow> t \<le> 1 \<Longrightarrow> a \<le> lerp a b t \<and> lerp a b t \<le> b"
proof -
  assume h: "a \<le> b" "0 \<le> t" "t \<le> 1"
  have "0 \<le> (b - a) * t" using h by simp
  moreover have "(b - a) * t \<le> (b - a) * 1" using h by (intro mult_left_mono) simp_all
  ultimately show ?thesis by (simp add: lerp_def)
qed

lemma u32_fraction:
  "0 \<le> real (unat (w :: u32)) / 4294967296 \<and> real (unat w) / 4294967296 < 1"
proof -
  have "unat w < 4294967296"
    using unsigned_less [of w, where ?'a = nat] by simp
  then have a: "real (unat w) < 4294967296" by linarith
  have b: "0 \<le> real (unat w)" by (rule of_nat_0_le_iff)
  have "0 \<le> r \<Longrightarrow> r < 4294967296 \<Longrightarrow> 0 \<le> r / 4294967296 \<and> r / 4294967296 < 1"
    for r :: real by simp
  from this [OF b a] show ?thesis .
qed

lemma mulberry32_next_range: "0 \<le> fst (mulberry32_next t) \<and> fst (mulberry32_next t) < 1"
  unfolding mulberry32_next_def Let_def fst_conv by (rule u32_fraction)

lemma mulberry32_seq_range: "0 \<le> mulberry32_seq t n \<and> mulberry32_seq t n < 1"
  unfolding mulberry32_seq_def by (rule mulberry32_next_range)

lemma mulberry32_mod: "a mod 2 ^ 32 = b mod 2 ^ 32 \<Longrightarrow> mulberry32 a = mulberry32 b"
  by (simp add: mulberry32_def)

section \<open>The seeded generator\<close>

text \<open>
  Claim C8. Every value produced by a \<^verbatim>\<open>mulberry32\<close> generator lies in the half-open
  interval from 0 to 1, and two generators whose seeds are equal as 32-bit integers produce the
  same value at every position of their output sequences.
\<close>

theorem mulberry32_unit_interval_and_reseed:
  "(0 \<le> mulberry32_seq (mulberry32 a) n \<and> mulberry32_seq (mulberry32 a) n < 1) \<and>
   (a mod 2 ^ 32 = b mod 2 ^ 32 \<longrightarrow>
      mulberry32_seq (mulberry32 a) n = mulberry32_seq (mulberry32 b) n)"
  using mulberry32_seq_range [of "mulberry32 a" n] mulberry32_mod [of a b] by auto

theorem mulberry32_unit_interval_and_reseed_witness:
  "(0 \<le> mulberry32_seq (mulberry32 777) 3 \<and> mulberry32_seq (mulberry32 777) 3 < 1) \<and>
   mulberry32_seq (mulberry32 777) 3 = mulberry32_seq (mulberry32 4294968073) 3"
  using mulberry32_unit_interval_and_reseed [of 777 3 4294968073] by simp

lemma temperature01_range: "0 \<le> temperature01 W x z y \<and> temperature01 W x z y \<le> 1"
  unfolding temperature01_def Let_def by (rule clamp_01)

lemma moisture01_range: "0 \<le> moisture01 W x z y \<and> moisture01 W x z y \<le> 1"
  unfolding moisture01_def Let_def by (rule clamp_01)

lemma geology01_range: "0 \<le> geology01 W x z \<and> geology01 W x z \<le> 1"
  unfolding geology01_def Let_def by (rule clamp_01)

section \<open>Ecology sample\<close>

text \<open>
  Claim C5. For all inputs \<open>x\<close>, \<open>z\<close>, \<open>y\<close>, \<open>normalY\<close> (given or omitted), each of the ten
  fields of the sample returned by \<^verbatim>\<open>sampleTo\<close> lies between 0 and 1, both included.
\<close>

theorem ecology_sample_fields_in_unit_interval:
  "0 \<le> temp (sampleTo W x z y normalY) \<and> temp (sampleTo W x z y normalY) \<le> 1 \<and>
   0 \<le> moist (sampleTo W x z y normalY) \<and> moist (sampleTo W x z y normalY) \<le> 1 \<and>
   0 \<le> geo (sampleTo W x z y normalY) \<and> geo (sampleTo W x z y normalY) \<le> 1 \<and>
   0 \<le> dry (sampleTo W x z y normalY) \<and> dry (sampleTo W x z y normalY) \<le> 1 \<and>
   0 \<le> wetland (sampleTo W x z y normalY) \<and> wetland (sampleTo W x z y normalY) \<le> 1 \<and>
   0 \<le> alpine (sampleTo W x z y normalY) \<and> alpine (sampleTo W x z y normalY) \<le> 1 \<and>
   0 \<le> volcanic (sampleTo W x z y normalY) \<and> volcanic (sampleTo W x z y normalY) \<le> 1 \<and>
   0 \<le> clay (sampleTo W x z y normalY) \<and> clay (sampleTo W x z y normalY) \<le> 1 \<and>
   0 \<le> riparian (sampleTo W x z y normalY) \<and> riparian (sampleTo W x z y normalY) \<le> 1 \<and>
   0 \<le> scree (sampleTo W x z y normalY) \<and> scree (sampleTo W x z y normalY) \<le> 1"
  by (simp add: sampleTo_def Let_def clamp_01 temperature01_range moisture01_range geology01_range)

section \<open>River pass\<close>

lemma river_pass_le:
  assumes "0 \<le> t"
  shows "min (h - WORLD_riverDepth * t * t) (lerp (h - WORLD_riverDepth * t * t) bed channel) \<le> h"
proof -
  have "0 \<le> WORLD_riverDepth * t * t" using assms by (simp add: WORLD_riverDepth_def)
  then show ?thesis by linarith
qed

text \<open>
  Claim C10. \<^verbatim>\<open>terrainHeight(x,z)\<close> is never above \<^verbatim>\<open>terrainHeightRaw(x,z)\<close>, and the two
  are equal in a world of kind \<^verbatim>\<open>miniIslands\<close>.
\<close>

theorem river_pass_only_lowers:
  "terrainHeight W x z \<le> terrainHeightRaw W x z \<and>
   (kind (BIOME W) = miniIslands \<longrightarrow> terrainHeight W x z = terrainHeightRaw W x z)"
proof -
  have "0 \<le> 1 - smoothstep 0 WORLD_riverBankWidth d" for d
    using smoothstep_range [of 0 WORLD_riverBankWidth d] by simp
  then show ?thesis
    by (simp add: terrainHeight_def Let_def river_pass_le)
qed

lemma edgeFade_void: "WORLD_half \<le> hypot x z \<Longrightarrow> edgeFade x z h = - 9"
  by (simp add: edgeFade_def Let_def WORLD_half_def WORLD_size_def smoothstep_one lerp_one)

lemma edgeFade_inside: "hypot x z \<le> WORLD_half * 0.84 \<Longrightarrow> edgeFade x z h = h"
  by (simp add: edgeFade_def Let_def WORLD_half_def WORLD_size_def smoothstep_zero lerp_zero)

lemma terrainHeightRaw_void: "WORLD_half \<le> hypot x z \<Longrightarrow> terrainHeightRaw W x z = - 9"
  by (simp add: terrainHeightRaw_def islandsHeightRaw_def mainlandHeightRaw_def Let_def edgeFade_void)


lemma kind_makeBiomeProfile:
  "kind (fst (makeBiomeProfile nz sd rp rw m i)) = (if m = ''miniIslands'' then miniIslands else mainland)"
  by (simp add: makeBiomeProfile_def Let_def)

lemma BIOME_constructWorld:
  "BIOME (fst (constructWorld nz ws rw bm)) =
     fst (makeBiomeProfile nz (real (unat ws) * 0.000123 + 12.345)
            (fst (makeRiverProfile rw (real (unat ws) * 0.000123 + 12.345) 0)) rw
            (case bm of Some m \<Rightarrow> m | None \<Rightarrow> ''mainland'') 7)"
  by (simp add: constructWorld_def Let_def makeRiverProfile_def)

lemma kind_constructWorld:
  "kind (BIOME (fst (constructWorld nz ws rw bm))) =
     (if bm = Some ''miniIslands'' then miniIslands else mainland)"
  by (simp add: BIOME_constructWorld kind_makeBiomeProfile split: option.split)

lemma river_centre_at_edge:
  assumes "kind (BIOME W) \<noteq> miniIslands" and "WORLD_half \<le> hypot (riverX W z) z"
  shows "terrainHeight W (riverX W z) z = - 11.6"
proof -
  have raw: "terrainHeightRaw W (riverX W z) z = - 9"
    using assms(2) by (rule terrainHeightRaw_void)
  show ?thesis
    using assms(1)
    by (simp add: terrainHeight_def Let_def raw WORLD_riverBankWidth_def WORLD_riverDepth_def
        WORLD_riverWidth_def WORLD_waterLevel_def smoothstep_def clamp_def lerp_def)
qed

lemma hypot_ge_right: "\<bar>z\<bar> \<le> hypot x z"
proof -
  have "sqrt (z * z) \<le> sqrt (x * x + z * z)" by (rule real_sqrt_le_mono) simp
  then show ?thesis by (simp add: hypot_def)
qed

lemma hypot_ge_left: "\<bar>x\<bar> \<le> hypot x z"
proof -
  have "sqrt (x * x) \<le> sqrt (x * x + z * z)" by (rule real_sqrt_le_mono) simp
  then show ?thesis by (simp add: hypot_def)
qed

lemma river_bank_at_edge:
  assumes "kind (BIOME W) \<noteq> miniIslands" and "WORLD_half \<le> hypot x z"
    and "\<bar>x - riverX W z\<bar> < WORLD_riverBankWidth"
  shows "terrainHeight W x z =
           - 9 - WORLD_riverDepth * (1 - smoothstep 0 WORLD_riverBankWidth \<bar>x - riverX W z\<bar>)
                                   * (1 - smoothstep 0 WORLD_riverBankWidth \<bar>x - riverX W z\<bar>)"
proof -
  define t where "t = 1 - smoothstep 0 WORLD_riverBankWidth \<bar>x - riverX W z\<bar>"
  define c where "c = 1 - smoothstep 0 (WORLD_riverWidth * 0.55) \<bar>x - riverX W z\<bar>"
  have raw: "terrainHeightRaw W x z = - 9"
    using assms(2) by (rule terrainHeightRaw_void)
  have c: "0 \<le> c" using smoothstep_range [of 0 "WORLD_riverWidth * 0.55" "\<bar>x - riverX W z\<bar>"]
    by (simp add: c_def)
  have d: "0 \<le> WORLD_riverDepth * t * t" by (simp add: WORLD_riverDepth_def)
  have "0 \<le> (WORLD_waterLevel - 0.55 - (- 9 - WORLD_riverDepth * t * t)) * c"
    using c d by (intro mult_nonneg_nonneg) (simp_all add: WORLD_waterLevel_def)
  then have "min (- 9 - WORLD_riverDepth * t * t)
               (lerp (- 9 - WORLD_riverDepth * t * t) (WORLD_waterLevel - 0.55) c)
             = - 9 - WORLD_riverDepth * t * t"
    by (simp add: lerp_def)
  then show ?thesis
    using assms(1,3) by (simp add: terrainHeight_def Let_def raw t_def c_def)
qed

lemma kind_exampleIslands: "kind (BIOME exampleIslands) = miniIslands"
  by (simp add: exampleIslands_def kind_constructWorld)

lemma kind_exampleMainland: "kind (BIOME exampleMainland) = mainland"
  by (simp add: exampleMainland_def kind_constructWorld)

theorem river_pass_only_lowers_witness:
  "terrainHeight exampleIslands 3 4 \<le> terrainHeightRaw exampleIslands 3 4 \<and>
   terrainHeight exampleIslands 3 4 = terrainHeightRaw exampleIslands 3 4"
  using river_pass_only_lowers [of exampleIslands 3 4] kind_exampleIslands by simp

lemma clamp01_eq_0: "clamp q 0 1 = 0 \<longleftrightarrow> q \<le> 0"
  by (auto simp add: clamp_def max_def min_def)

lemma clamp01_eq_1: "clamp q 0 1 = 1 \<longleftrightarrow> 1 \<le> q"
  by (auto simp add: clamp_def max_def min_def)

lemma smoothstep_eq_0_iff:
  assumes "a < b"
  shows "smoothstep a b x = 0 \<longleftrightarrow> x \<le> a"
proof
  assume z: "smoothstep a b x = 0"
  define t where "t = clamp ((x - a) / (b - a)) 0 1"
  have t: "0 \<le> t" "t \<le> 1" using clamp_01 by (simp_all add: t_def)
  have "t * t * (3 - 2 * t) = 0" using z by (simp add: smoothstep_def t_def Let_def)
  then have "t = 0" using t by auto
  then have "(x - a) / (b - a) \<le> 0" by (simp add: t_def clamp01_eq_0)
  then show "x \<le> a" using assms by (simp add: divide_le_0_iff)
next
  assume "x \<le> a"
  then show "smoothstep a b x = 0" using assms by (simp add: smoothstep_zero)
qed

lemma smoothstep_eq_1_iff:
  assumes "a < b"
  shows "smoothstep a b x = 1 \<longleftrightarrow> b \<le> x"
proof
  assume z: "smoothstep a b x = 1"
  define t where "t = clamp ((x - a) / (b - a)) 0 1"
  have t: "0 \<le> t" "t \<le> 1" using clamp_01 by (simp_all add: t_def)
  have "t * t * (3 - 2 * t) = 1" using z by (simp add: smoothstep_def t_def Let_def)
  then have "(1 - t) * (1 - t) * (2 * t + 1) = 0" by (simp add: algebra_simps)
  then have "t = 1" using t by auto
  then have "1 \<le> (x - a) / (b - a)" by (simp add: t_def clamp01_eq_1)
  then show "b \<le> x" using assms by (simp add: le_divide_eq)
next
  assume "b \<le> x"
  then show "smoothstep a b x = 1" using assms by (simp add: smoothstep_one)
qed

section \<open>World-edge fade\<close>

text \<open>The blend of the fade leaves a height \<open>h \<noteq> -9\<close> unchanged exactly where the distance
  from the origin is at most 84% of the half-extent, and replaces it by \<open>-9\<close> exactly where the
  distance is at least the half-extent.\<close>

lemma edgeFade_keeps_iff:
  "edgeFade x z h = h \<longleftrightarrow> hypot x z \<le> WORLD_half * 0.84 \<or> h = - 9"
proof -
  define e where "e = smoothstep (WORLD_size * 0.42) (WORLD_size * 0.5) (hypot x z)"
  have e0: "e = 0 \<longleftrightarrow> hypot x z \<le> WORLD_half * 0.84"
    using smoothstep_eq_0_iff [of "WORLD_size * 0.42" "WORLD_size * 0.5" "hypot x z"]
    by (simp add: e_def WORLD_size_def WORLD_half_def)
  have "edgeFade x z h = h + (- 9 - h) * e"
    by (simp add: edgeFade_def Let_def lerp_def e_def)
  then have "edgeFade x z h = h \<longleftrightarrow> (- 9 - h) * e = 0" by simp
  also have "\<dots> \<longleftrightarrow> e = 0 \<or> h = - 9" by auto
  finally show ?thesis using e0 by simp
qed

lemma edgeFade_void_iff:
  "edgeFade x z h = - 9 \<longleftrightarrow> WORLD_half \<le> hypot x z \<or> h = - 9"
proof -
  define e where "e = smoothstep (WORLD_size * 0.42) (WORLD_size * 0.5) (hypot x z)"
  have e1: "e = 1 \<longleftrightarrow> WORLD_half \<le> hypot x z"
    using smoothstep_eq_1_iff [of "WORLD_size * 0.42" "WORLD_size * 0.5" "hypot x z"]
    by (simp add: e_def WORLD_size_def WORLD_half_def)
  have "edgeFade x z h = - 9 + (h + 9) * (1 - e)"
    by (simp add: edgeFade_def Let_def lerp_def e_def algebra_simps)
  then have "edgeFade x z h = - 9 \<longleftrightarrow> (h + 9) * (1 - e) = 0" by linarith
  also have "\<dots> \<longleftrightarrow> h + 9 = 0 \<or> 1 - e = 0" by (rule mult_eq_0_iff)
  also have "\<dots> \<longleftrightarrow> e = 1 \<or> h = - 9" by linarith
  finally show ?thesis using e1 by simp
qed

text \<open>
  Claim C4, as amended. Both branches of \<^verbatim>\<open>terrainHeightRaw\<close> end with the world-edge fade of
  the height computed before it (the island surface in a \<^verbatim>\<open>miniIslands\<close> world, the mainland
  pipeline up to the pond basins otherwise). The fade keeps a height other than \<open>-9\<close> exactly
  where \<open>hypot x z\<close> is at most 84% of the half-extent (285.6), and yields the void height \<open>-9\<close>
  exactly where \<open>hypot x z\<close> is at least the half-extent (340). So, at and beyond the
  half-extent, \<^verbatim>\<open>terrainHeightRaw\<close> is \<open>-9\<close> in both biome modes, and \<^verbatim>\<open>terrainHeight\<close> is
  \<open>-9\<close> in a \<^verbatim>\<open>miniIslands\<close> world and, in a mainland world, at the points that are at least
  \<^verbatim>\<open>riverBankWidth\<close> (22) away from the river centreline; inside the river bank of a mainland
  world the river pass, which runs after the fade, lowers the void height by the channel depth
  \<open>2.6 * t * t\<close>.
\<close>

theorem world_edge_fade:
  "terrainHeightRaw W x z =
     edgeFade x z
       (if kind (BIOME W) = miniIslands then islandsSurface W x z
        else (let xw = fst (warp W x z); zw = snd (warp W x z)
              in pondBasins W xw zw
                   (waterfallRavine W xw zw
                     (volcanicRegion W xw zw
                       (sandyCoast W x z
                         (terracing W
                           (base W xw zw * baseAmp (TERRAIN_PROFILE W)
                            + \<bar>noise W (xw * 0.011) (zw * 0.011) (seed W + 40)\<bar> powr 1.85
                              * ridgeAmp (TERRAIN_PROFILE W)
                            + noise W (xw * 0.33) (zw * 0.33) (seed W + 80)
                              * microAmp (TERRAIN_PROFILE W)
                            + macroLandforms W xw zw
                            + ridgeLines W xw zw))))))) \<and>
   (\<forall>h. (edgeFade x z h = h \<longleftrightarrow> hypot x z \<le> WORLD_half * 0.84 \<or> h = - 9) \<and>
        (edgeFade x z h = - 9 \<longleftrightarrow> WORLD_half \<le> hypot x z \<or> h = - 9)) \<and>
   (WORLD_half \<le> hypot x z \<longrightarrow>
      terrainHeightRaw W x z = - 9 \<and>
      terrainHeight W x z =
        (if kind (BIOME W) = miniIslands \<or> WORLD_riverBankWidth \<le> \<bar>x - riverX W z\<bar> then - 9
         else - 9 - WORLD_riverDepth
                    * (1 - smoothstep 0 WORLD_riverBankWidth \<bar>x - riverX W z\<bar>)
                    * (1 - smoothstep 0 WORLD_riverBankWidth \<bar>x - riverX W z\<bar>)))"
proof (intro conjI allI impI)
  show "terrainHeightRaw W x z =
     edgeFade x z
       (if kind (BIOME W) = miniIslands then islandsSurface W x z
        else (let xw = fst (warp W x z); zw = snd (warp W x z)
              in pondBasins W xw zw
                   (waterfallRavine W xw zw
                     (volcanicRegion W xw zw
                       (sandyCoast W x z
                         (terracing W
                           (base W xw zw * baseAmp (TERRAIN_PROFILE W)
                            + \<bar>noise W (xw * 0.011) (zw * 0.011) (seed W + 40)\<bar> powr 1.85
                              * ridgeAmp (TERRAIN_PROFILE W)
                            + noise W (xw * 0.33) (zw * 0.33) (seed W + 80)
                              * microAmp (TERRAIN_PROFILE W)
                            + macroLandforms W xw zw
                            + ridgeLines W xw zw)))))))"
    by (simp add: terrainHeightRaw_def islandsHeightRaw_def mainlandHeightRaw_def Let_def)
  show "edgeFade x z h = h \<longleftrightarrow> hypot x z \<le> WORLD_half * 0.84 \<or> h = - 9" for h
    by (rule edgeFade_keeps_iff)
  show "edgeFade x z h = - 9 \<longleftrightarrow> WORLD_half \<le> hypot x z \<or> h = - 9" for h
    by (rule edgeFade_void_iff)
next
  assume a: "WORLD_half \<le> hypot x z"
  show raw: "terrainHeightRaw W x z = - 9" using a by (rule terrainHeightRaw_void)
  show "terrainHeight W x z =
           (if kind (BIOME W) = miniIslands \<or> WORLD_riverBankWidth \<le> \<bar>x - riverX W z\<bar> then - 9
            else - 9 - WORLD_riverDepth
                       * (1 - smoothstep 0 WORLD_riverBankWidth \<bar>x - riverX W z\<bar>)
                       * (1 - smoothstep 0 WORLD_riverBankWidth \<bar>x - riverX W z\<bar>))"
  proof (cases "kind (BIOME W) = miniIslands \<or> WORLD_riverBankWidth \<le> \<bar>x - riverX W z\<bar>")
    case True
    then show ?thesis using raw by (auto simp add: terrainHeight_def Let_def)
  next
    case False
    then show ?thesis using river_bank_at_edge [of W x z] a by simp
  qed
qed

theorem world_edge_fade_witness:
  "WORLD_half \<le> hypot 400 0 \<and> terrainHeightRaw exampleIslands 400 0 = - 9 \<and>
   terrainHeight exampleIslands 400 0 = - 9 \<and>
   hypot 170 0 \<le> WORLD_half * 0.84 \<and>
   terrainHeightRaw exampleIslands 170 0 = islandsSurface exampleIslands 170 0"
proof -
  have h: "WORLD_half \<le> hypot 400 0"
    using hypot_ge_left [of 400 0] by (simp add: WORLD_half_def)
  have i: "hypot 170 0 \<le> WORLD_half * 0.84"
    by (simp add: hypot_def WORLD_half_def)
  show ?thesis
    using h i world_edge_fade [of exampleIslands 400 0]
      world_edge_fade [of exampleIslands 170 0] kind_exampleIslands
    by simp
qed

text \<open>
  The claim as stated fails on the river centreline of a mainland world: at \<open>z = 340\<close> the
  point lies on or beyond the half-extent, and the height there is \<open>-9 - 2.6\<close>.
\<close>

theorem edge_fade_counterexample:
  "WORLD_half \<le> hypot (riverX exampleMainland 340) 340 \<and>
   terrainHeight exampleMainland (riverX exampleMainland 340) 340 = - 11.6"
proof -
  have h: "WORLD_half \<le> hypot (riverX exampleMainland 340) 340"
    using hypot_ge_right [of 340 "riverX exampleMainland 340"] by (simp add: WORLD_half_def)
  show ?thesis
    using h river_centre_at_edge [of exampleMainland 340] kind_exampleMainland by simp
qed

section \<open>Biome profile: islands and ponds\<close>

lemma islands_loop_range:
  "(\<forall>k. 0 \<le> rw k \<and> rw k \<le> 1) \<Longrightarrow> (\<forall>il\<in>set isls. islandInRange il) \<Longrightarrow>
   (\<forall>il\<in>set (fst (islands_loop rw ct isls tries i)). islandInRange il)"
proof (induction rw ct isls tries i rule: islands_loop.induct)
  case (1 rw ct isls tries i)
  have r: "10 \<le> lerp 10 26 (rw (i + 2)) \<and> lerp 10 26 (rw (i + 2)) \<le> 26"
    using lerp_range [of 10 26 "rw (i + 2)"] "1.prems"(1) by simp
  have h: "3.8 \<le> lerp 3.8 14.5 (rw (i + 3)) \<and> lerp 3.8 14.5 (rw (i + 3)) \<le> 14.5"
    using lerp_range [of "3.8" "14.5" "rw (i + 3)"] "1.prems"(1) by simp
  show ?case
    apply (subst islands_loop.simps)
    using 1 r h by (auto simp add: islandInRange_def)
qed


lemma createWorldGen_Inr:
  "createWorldGen nz (Some ws) (Some rw) bm = Inr W \<longleftrightarrow> W = fst (constructWorld nz ws rw bm)"
  by (auto simp add: createWorldGen_def)

lemma islands_makeBiomeProfile:
  "islands (fst (makeBiomeProfile nz sd rp rw ''miniIslands'' i)) =
     fst (islands_loop rw (18 + \<lfloor>rw (i + 1) * 15\<rfloor>) [] 0 (i + 2))"
  by (simp add: makeBiomeProfile_def Let_def)

text \<open>
  Claim C9. In \<^verbatim>\<open>miniIslands\<close> mode, whatever the seed, every island descriptor of the
  generated biome profile has its radius between 10 and 26 and its height between 3.8 and 14.5,
  provided \<^verbatim>\<open>randWorld\<close> returns values in the unit interval, as a \<^verbatim>\<open>mulberry32\<close>
  generator does.
\<close>

theorem island_descriptor_ranges:
  assumes "\<forall>k. 0 \<le> randWorld k \<and> randWorld k < 1"
    and "createWorldGen nz (Some worldSeed) (Some randWorld) (Some ''miniIslands'') = Inr W"
  shows "\<forall>il\<in>set (islands (BIOME W)).
           10 \<le> isl_r il \<and> isl_r il \<le> 26 \<and> 3.8 \<le> isl_height il \<and> isl_height il \<le> 14.5"
proof -
  have rng: "\<forall>k. 0 \<le> randWorld k \<and> randWorld k \<le> 1"
    using assms(1) by (simp add: less_imp_le)
  have W: "W = fst (constructWorld nz worldSeed randWorld (Some ''miniIslands''))"
    using assms(2) by (simp add: createWorldGen_Inr)
  have "\<forall>il\<in>set (islands (BIOME W)). islandInRange il"
    unfolding W BIOME_constructWorld option.case islands_makeBiomeProfile
    by (rule islands_loop_range [OF rng]) simp
  then show ?thesis by (simp add: islandInRange_def)
qed

lemma pondsApart_sym: "pondsApart a b \<longleftrightarrow> pondsApart b a"
proof -
  have "(pond_x a - pond_x b) * (pond_x a - pond_x b) = (pond_x b - pond_x a) * (pond_x b - pond_x a)"
    by (simp add: algebra_simps)
  moreover have "(pond_z a - pond_z b) * (pond_z a - pond_z b) = (pond_z b - pond_z a) * (pond_z b - pond_z a)"
    by (simp add: algebra_simps)
  ultimately show ?thesis by (simp add: pondsApart_def hypot_def add.commute)
qed

lemma pairwiseApart_snoc:
  assumes "pairwiseApart ps" and "\<forall>p\<in>set ps. pondsApart p q"
  shows "pairwiseApart (ps @ [q])"
  unfolding pairwiseApart_def
proof (intro allI impI)
  fix i j
  assume h: "i < length (ps @ [q]) \<and> j < length (ps @ [q]) \<and> i \<noteq> j"
  consider "i < length ps" "j < length ps" | "i < length ps" "j = length ps"
    | "i = length ps" "j < length ps"
    using h by (cases "i < length ps"; cases "j < length ps") auto
  then show "pondsApart ((ps @ [q]) ! i) ((ps @ [q]) ! j)"
  proof cases
    case 1
    then show ?thesis using assms(1) h by (simp add: pairwiseApart_def nth_append)
  next
    case 2
    then show ?thesis using assms(2) by (simp add: nth_append)
  next
    case 3
    then have "pondsApart (ps ! j) q" using assms(2) by simp
    then show ?thesis using 3 pondsApart_sym [of q "ps ! j"] by (simp add: nth_append)
  qed
qed

lemma ponds_loop_apart:
  "pairwiseApart pnds \<Longrightarrow>
   pairwiseApart (fst (ponds_loop nz sd rp rw cDir sPos sWidth pondCount pnds tries i))"
proof (induction nz sd rp rw cDir sPos sWidth pondCount pnds tries i rule: ponds_loop.induct)
  case (1 nz sd rp rw cDir sPos sWidth pondCount pnds tries i)
  let ?x = "lerp (- WORLD_half * 0.42) (WORLD_half * 0.42) (rw i)"
  let ?z = "lerp (- WORLD_half * 0.42) (WORLD_half * 0.42) (rw (i + 1))"
  let ?new = "\<lparr>pond_x = ?x, pond_z = ?z, pond_r = lerp 6.5 14.5 (rw (i + 2)),
                pond_depth = lerp 1.1 3.2 (rw (i + 3)),
                pond_fill = lerp 0.35 1.05 (rw (i + 4)), pond_level = 0\<rparr>"
  have snoc: "pairwiseApart (pnds @ [?new])"
    if "\<not> list_ex (\<lambda>p. hypot (pond_x p - ?x) (pond_z p - ?z)
                          < (pond_r p + lerp 6.5 14.5 (rw (i + 2))) * 1.25) pnds"
  proof (rule pairwiseApart_snoc [OF "1.prems"])
    show "\<forall>p\<in>set pnds. pondsApart p ?new"
      using that by (auto simp add: list_ex_iff pondsApart_def not_less)
  qed
  show ?case
    apply (subst ponds_loop.simps)
    using 1 snoc by auto
qed


lemma ponds_makeBiomeProfile:
  assumes "m \<noteq> ''miniIslands''"
  shows "\<exists>spring.
           ponds (fst (makeBiomeProfile nz sd rp rw m i)) =
             fst (ponds_loop nz sd rp rw
                    (vec2_normalize (cos (rw i * pi * 2), sin (rw i * pi * 2)))
                    (lerp 0.12 0.28 (rw (i + 1)) * WORLD_half) (lerp 18 40 (rw (i + 2)))
                    (2 + \<lfloor>rw (i + 5) * 3\<rfloor>) [] 0 (i + 6)) @ [spring] \<and>
           springIndex (fst (makeBiomeProfile nz sd rp rw m i)) =
             int (length (ponds (fst (makeBiomeProfile nz sd rp rw m i)))) - 1"
  using assms by (simp add: makeBiomeProfile_def Let_def)

lemma pairwiseApart_Nil: "pairwiseApart []"
  by (simp add: pairwiseApart_def)

text \<open>
  Claim C2, as amended. In every generated mainland biome profile the spring pond is the last
  entry of the pond list, and any two distinct ponds other than the spring pond are apart by at
  least the sum of their radii times 1.25. This holds also when the retry budget of 650 runs
  out: the list is then shorter, it never receives a pond that failed the test.
\<close>

theorem loop_ponds_do_not_overlap:
  assumes "createWorldGen nz (Some worldSeed) (Some randWorld) biomeMode = Inr W"
    and "biomeMode \<noteq> Some ''miniIslands''"
  shows "springIndex (BIOME W) = int (length (ponds (BIOME W))) - 1 \<and>
         (\<forall>i j. i < length (ponds (BIOME W)) \<and> j < length (ponds (BIOME W)) \<and> i \<noteq> j \<and>
                int i \<noteq> springIndex (BIOME W) \<and> int j \<noteq> springIndex (BIOME W) \<longrightarrow>
                pondsApart (ponds (BIOME W) ! i) (ponds (BIOME W) ! j))"
proof -
  define m where "m = (case biomeMode of Some m \<Rightarrow> m | None \<Rightarrow> ''mainland'')"
  have m: "m \<noteq> ''miniIslands''"
    using assms(2) by (auto simp add: m_def split: option.splits)
  have W: "W = fst (constructWorld nz worldSeed randWorld biomeMode)"
    using assms(1) by (simp add: createWorldGen_Inr)
  obtain sd rp where B: "BIOME W = fst (makeBiomeProfile nz sd rp randWorld m 7)"
    unfolding W BIOME_constructWorld m_def by blast
  obtain lp spring where ps: "ponds (BIOME W) = lp @ [spring]"
    and lp: "lp = fst (ponds_loop nz sd rp randWorld
                    (vec2_normalize (cos (randWorld 7 * pi * 2), sin (randWorld 7 * pi * 2)))
                    (lerp 0.12 0.28 (randWorld (7 + 1)) * WORLD_half) (lerp 18 40 (randWorld (7 + 2)))
                    (2 + \<lfloor>randWorld (7 + 5) * 3\<rfloor>) [] 0 (7 + 6))"
    and si: "springIndex (BIOME W) = int (length (ponds (BIOME W))) - 1"
    using ponds_makeBiomeProfile [OF m, of nz sd rp randWorld 7] unfolding B by blast
  have ap: "pairwiseApart lp"
    unfolding lp by (rule ponds_loop_apart [OF pairwiseApart_Nil])
  show ?thesis
  proof (intro conjI allI impI)
    show "springIndex (BIOME W) = int (length (ponds (BIOME W))) - 1" by (rule si)
  next
    fix i j
    assume h: "i < length (ponds (BIOME W)) \<and> j < length (ponds (BIOME W)) \<and> i \<noteq> j \<and>
               int i \<noteq> springIndex (BIOME W) \<and> int j \<noteq> springIndex (BIOME W)"
    then have "i < length lp" "j < length lp" "i \<noteq> j"
      using si ps by auto
    then show "pondsApart (ponds (BIOME W) ! i) (ponds (BIOME W) ! j)"
      using ap by (simp add: ps nth_append pairwiseApart_def)
  qed
qed

section \<open>A world of islands, evaluated\<close>

lemma roundToDouble_small: "n < 2 ^ 53 \<Longrightarrow> roundToDouble n = n"
  by (simp add: roundToDouble_def)

lemma mulberry32_state_early:
  "t + n * 1831565813 < 2 ^ 53 \<Longrightarrow> mulberry32_state t n = t + n * 1831565813"
proof (induction n arbitrary: t)
  case 0
  then show ?case by simp
next
  case (Suc n)
  have lt: "t + 1831565813 < 2 ^ 53" using Suc.prems by simp
  have "snd (mulberry32_next t) = t + 1831565813"
    using lt by (simp add: mulberry32_next_def Let_def roundToDouble_small)
  moreover have "(t + 1831565813) + n * 1831565813 < 2 ^ 53" using Suc.prems by simp
  ultimately show ?case using Suc.IH [of "t + 1831565813"] by simp
qed

lemma mulberry32_seq_early:
  "t + n * 1831565813 < 2 ^ 53 \<Longrightarrow>
   mulberry32_seq t n = fst (mulberry32_next (t + n * 1831565813))"
  by (simp add: mulberry32_seq_def mulberry32_state_early)

lemma stream777_9: "mulberry32_seq (mulberry32 777) 9 = 3321973612 / 4294967296"
  by (simp add: mulberry32_seq_early mulberry32_def mulberry32_next_def roundToDouble_def)

lemma stream777_10: "mulberry32_seq (mulberry32 777) 10 = 3021391827 / 4294967296"
  by (simp add: mulberry32_seq_early mulberry32_def mulberry32_next_def roundToDouble_def)

lemma hypot_le_abs_sum: "hypot a b \<le> \<bar>a\<bar> + \<bar>b\<bar>"
proof -
  have "a * a + b * b \<le> (\<bar>a\<bar> + \<bar>b\<bar>) * (\<bar>a\<bar> + \<bar>b\<bar>)"
    by (simp add: algebra_simps)
  then have "sqrt (a * a + b * b) \<le> sqrt ((\<bar>a\<bar> + \<bar>b\<bar>) * (\<bar>a\<bar> + \<bar>b\<bar>))"
    by (rule real_sqrt_le_mono)
  then show ?thesis by (simp add: hypot_def)
qed

lemma islands_loop_extends:
  "\<exists>more. fst (islands_loop rw ct isls tries i) = isls @ more"
proof (induction rw ct isls tries i rule: islands_loop.induct)
  case (1 rw ct isls tries i)
  show ?case
    apply (subst islands_loop.simps)
    using 1 by auto
qed

lemma islands_loop_accept:
  assumes "int (length isls) < ct" and "tries < 5000"
    and "\<not> hypot (lerp (- WORLD_half * 0.46) (WORLD_half * 0.46) (rw i))
                  (lerp (- WORLD_half * 0.46) (WORLD_half * 0.46) (rw (i + 1)))
              > WORLD_half * 0.47"
    and "\<not> list_ex (\<lambda>o'.
                   hypot (isl_x o' - lerp (- WORLD_half * 0.46) (WORLD_half * 0.46) (rw i))
                         (isl_z o' - lerp (- WORLD_half * 0.46) (WORLD_half * 0.46) (rw (i + 1)))
                     < (isl_r o' + lerp 10.0 26.0 (rw (i + 2))) * 0.78) isls"
  shows "islands_loop rw ct isls tries i =
         islands_loop rw ct
           (isls @ [\<lparr>isl_x = lerp (- WORLD_half * 0.46) (WORLD_half * 0.46) (rw i),
                      isl_z = lerp (- WORLD_half * 0.46) (WORLD_half * 0.46) (rw (i + 1)),
                      isl_r = lerp 10.0 26.0 (rw (i + 2)),
                      isl_height = lerp 3.8 14.5 (rw (i + 3)),
                      isl_detail = lerp 0.25 1.0 (rw (i + 4)),
                      isl_seed = rw (i + 5) * 1000\<rparr>])
           (tries + 1) (i + 6)"
  by (subst islands_loop.simps) (use assms in simp)

lemma islands_exampleIslands_nonempty: "islands (BIOME exampleIslands) \<noteq> []"
proof -
  let ?rw = "mulberry32_seq (mulberry32 777)"
  let ?ct = "18 + \<lfloor>?rw 8 * 15\<rfloor>"
  have ct: "int (length ([] :: island list)) < ?ct"
    using mulberry32_seq_range [of "mulberry32 777" 8] by (simp add: add_pos_nonneg)
  have far: "\<not> hypot (lerp (- WORLD_half * 0.46) (WORLD_half * 0.46) (?rw 9))
                  (lerp (- WORLD_half * 0.46) (WORLD_half * 0.46) (?rw (9 + 1)))
              > WORLD_half * 0.47"
    using hypot_le_abs_sum [of "lerp (- WORLD_half * 0.46) (WORLD_half * 0.46) (?rw 9)"
        "lerp (- WORLD_half * 0.46) (WORLD_half * 0.46) (?rw (9 + 1))"]
    by (simp add: stream777_9 stream777_10 lerp_def WORLD_half_def)
  obtain il where step: "islands_loop ?rw ?ct [] 0 9 = islands_loop ?rw ?ct ([] @ [il]) (0 + 1) (9 + 6)"
    using islands_loop_accept [of "[]" ?ct 0 ?rw 9, OF ct _ far] by simp
  obtain more where "fst (islands_loop ?rw ?ct ([] @ [il]) (0 + 1) (9 + 6)) = ([] @ [il]) @ more"
    using islands_loop_extends by blast
  then have "fst (islands_loop ?rw ?ct [] 0 9) \<noteq> []"
    using step by simp
  then show ?thesis
    by (simp add: exampleIslands_def BIOME_constructWorld islands_makeBiomeProfile)
qed

lemma createWorldGen_exampleIslands:
  "createWorldGen flatNoise (Some 777) (Some (mulberry32_seq (mulberry32 777)))
     (Some ''miniIslands'') = Inr exampleIslands"
  by (simp add: createWorldGen_Inr exampleIslands_def)

theorem island_descriptor_ranges_witness:
  "(\<forall>k. 0 \<le> mulberry32_seq (mulberry32 777) k \<and> mulberry32_seq (mulberry32 777) k < 1) \<and>
   islands (BIOME exampleIslands) \<noteq> [] \<and>
   10 \<le> isl_r (hd (islands (BIOME exampleIslands))) \<and>
   isl_r (hd (islands (BIOME exampleIslands))) \<le> 26 \<and>
   3.8 \<le> isl_height (hd (islands (BIOME exampleIslands))) \<and>
   isl_height (hd (islands (BIOME exampleIslands))) \<le> 14.5"
proof -
  have r: "\<forall>k. 0 \<le> mulberry32_seq (mulberry32 777) k \<and> mulberry32_seq (mulberry32 777) k < 1"
    by (simp add: mulberry32_seq_range)
  have "hd (islands (BIOME exampleIslands)) \<in> set (islands (BIOME exampleIslands))"
    using islands_exampleIslands_nonempty by simp
  then show ?thesis
    using r islands_exampleIslands_nonempty
      island_descriptor_ranges [OF r createWorldGen_exampleIslands]
    by blast
qed

section \<open>A mainland world whose spring pond overlaps a pond\<close>

lemma riverCenterX_bound:
  assumes "\<forall>a b c. \<bar>nz a b c\<bar> \<le> 1"
  shows "\<bar>riverCenterX nz sd rp z\<bar> \<le> \<bar>amp1 rp\<bar> + \<bar>amp2 rp\<bar> + \<bar>wobbleAmp rp\<bar>"
proof -
  have a: "\<bar>amp1 rp * sin u\<bar> \<le> \<bar>amp1 rp\<bar>" for u
    using abs_sin_le_one [of u] by (simp add: abs_mult mult_left_le)
  have b: "\<bar>amp2 rp * sin u\<bar> \<le> \<bar>amp2 rp\<bar>" for u
    using abs_sin_le_one [of u] by (simp add: abs_mult mult_left_le)
  have c: "\<bar>nz 0 (z * wobbleFreq rp) (sd + 200) * wobbleAmp rp\<bar> \<le> \<bar>wobbleAmp rp\<bar>"
    using assms by (simp add: abs_mult mult_left_le_one_le)
  have "riverCenterX nz sd rp z =
          amp1 rp * sin (z * freq rp + phase rp) +
          amp2 rp * sin (z * freq rp * 2.17 + 1.1 + phase rp * 0.7) +
          nz 0 (z * wobbleFreq rp) (sd + 200) * wobbleAmp rp"
    by (simp add: riverCenterX_def Let_def)
  then show ?thesis
    using a [of "z * freq rp + phase rp"] b [of "z * freq rp * 2.17 + 1.1 + phase rp * 0.7"] c
    by linarith
qed

lemma flatNoise_bounded: "\<forall>a b c. \<bar>flatNoise a b c\<bar> \<le> 1"
  by (simp add: flatNoise_def)

lemma ponds_loop_accept:
  assumes "int (length pnds) < pondCount" and "tries < 650"
    and "x = lerp (- WORLD_half * 0.42) (WORLD_half * 0.42) (rw i)"
    and "z = lerp (- WORLD_half * 0.42) (WORLD_half * 0.42) (rw (i + 1))"
    and "r = lerp 6.5 14.5 (rw (i + 2))"
    and "\<not> \<bar>x - riverCenterX nz sd rp z\<bar> < WORLD_riverBankWidth * 0.9"
    and "\<not> x * fst cDir + z * snd cDir > sPos + sWidth * 0.55"
    and "\<forall>p\<in>set pnds. \<not> hypot (pond_x p - x) (pond_z p - z) < (pond_r p + r) * 1.25"
  shows "ponds_loop nz sd rp rw cDir sPos sWidth pondCount pnds tries i =
         ponds_loop nz sd rp rw cDir sPos sWidth pondCount
           (pnds @ [\<lparr>pond_x = x, pond_z = z, pond_r = r,
                      pond_depth = lerp 1.1 3.2 (rw (i + 3)),
                      pond_fill = lerp 0.35 1.05 (rw (i + 4)), pond_level = 0\<rparr>])
           (tries + 1) (i + 5)"
  by (subst ponds_loop.simps) (use assms in \<open>simp add: list_ex_iff\<close>)

lemma ponds_loop_done:
  "\<not> (int (length pnds) < pondCount \<and> tries < 650) \<Longrightarrow>
   ponds_loop nz sd rp rw cDir sPos sWidth pondCount pnds tries i = (pnds, i)"
  by (subst ponds_loop.simps) (rule if_not_P)

lemma ponds_makeBiomeProfile_mainland:
  assumes "m \<noteq> ''miniIslands''"
    and "ponds_loop nz sd rp rw
           (vec2_normalize (cos (rw i * pi * 2), sin (rw i * pi * 2)))
           (lerp 0.12 0.28 (rw (i + 1)) * WORLD_half) (lerp 18 40 (rw (i + 2)))
           (2 + \<lfloor>rw (i + 5) * 3\<rfloor>) [] 0 (i + 6) = (lp, j)"
  shows "ponds (fst (makeBiomeProfile nz sd rp rw m i)) =
           lp @ [\<lparr>pond_x = riverCenterX nz sd rp (lerp (- WORLD_half * 0.2) (WORLD_half * 0.2) (rw j))
                           + (if rw (j + 1) < 0.5 then - 1 else 1) * lerp 18 34 (rw (j + 2)),
                   pond_z = lerp (- WORLD_half * 0.2) (WORLD_half * 0.2) (rw j),
                   pond_r = lerp 6.0 10.0 (rw (j + 3)),
                   pond_depth = lerp 1.4 2.8 (rw (j + 4)),
                   pond_fill = lerp 0.55 1.25 (rw (j + 5)), pond_level = 0\<rparr>]"
  using assms by (simp add: makeBiomeProfile_def Let_def)


lemma hypot_gt_abs: "c < \<bar>a\<bar> \<Longrightarrow> \<not> hypot a b < c"
  using hypot_ge_left [of a b] by simp

lemma ponds_pond_example:
  assumes nz: "\<forall>a b c. \<bar>nz a b c\<bar> \<le> 1"
    and W: "W = fst (constructWorld nz ws pondStream (Some ''mainland''))"
  shows "ponds (BIOME W) =
     [\<lparr>pond_x = 40.1625, pond_z = 0, pond_r = 14, pond_depth = 1.1, pond_fill = 0.35,
       pond_level = 0\<rparr>,
      \<lparr>pond_x = - 142.8, pond_z = - 142.8, pond_r = 6.5, pond_depth = 1.1, pond_fill = 0.35,
       pond_level = 0\<rparr>,
      \<lparr>pond_x = riverX W 0 + 33, pond_z = 0, pond_r = 9, pond_depth = 1.4,
       pond_fill = 0.55, pond_level = 0\<rparr>]"
proof -
  define sd :: real where "sd = real (unat ws) * 0.000123 + 12.345"
  define rp where "rp = fst (makeRiverProfile pondStream sd 0)"
  let ?A = "\<lparr>pond_x = 40.1625, pond_z = 0, pond_r = 14, pond_depth = 1.1, pond_fill = 0.35,
             pond_level = 0 :: real\<rparr>"
  let ?B = "\<lparr>pond_x = - 142.8, pond_z = - 142.8, pond_r = 6.5, pond_depth = 1.1,
             pond_fill = 0.35, pond_level = 0 :: real\<rparr>"
  have amp: "amp1 rp = 14" "amp2 rp = 3.92" "wobbleAmp rp = 1.5"
    by (simp_all add: rp_def makeRiverProfile_def pondStream_def lerp_def Let_def)
  have bound: "\<bar>riverCenterX nz sd rp z\<bar> \<le> 19.42" for z
    using riverCenterX_bound [OF nz, of sd rp z] by (simp add: amp)
  have dir: "vec2_normalize (cos (pondStream 7 * pi * 2), sin (pondStream 7 * pi * 2)) = (1, 0)"
    by (simp add: pondStream_def vec2_normalize_def)
  have sPos: "lerp 0.12 0.28 (pondStream (7 + 1)) * WORLD_half = 40.8"
    by (simp add: pondStream_def lerp_def WORLD_half_def)
  have sWidth: "lerp 18 40 (pondStream (7 + 2)) = 18"
    by (simp add: pondStream_def lerp_def)
  have pc: "2 + \<lfloor>pondStream (7 + 5) * 3\<rfloor> = 2"
    by (simp add: pondStream_def)
  have s1: "ponds_loop nz sd rp pondStream (1, 0) 40.8 18 2 [] 0 13 =
            ponds_loop nz sd rp pondStream (1, 0) 40.8 18 2 [?A] 1 18"
  proof -
    have x: "40.1625 = lerp (- WORLD_half * 0.42) (WORLD_half * 0.42) (pondStream 13)"
      by (simp add: pondStream_def lerp_def WORLD_half_def)
    have z: "0 = lerp (- WORLD_half * 0.42) (WORLD_half * 0.42) (pondStream (13 + 1))"
      by (simp add: pondStream_def lerp_def WORLD_half_def)
    have r: "14 = lerp 6.5 14.5 (pondStream (13 + 2))"
      by (simp add: pondStream_def lerp_def)
    have river: "\<not> \<bar>40.1625 - riverCenterX nz sd rp 0\<bar> < WORLD_riverBankWidth * 0.9"
      using bound [of 0] by (simp add: WORLD_riverBankWidth_def)
    have coast: "\<not> 40.1625 * fst (1 :: real, 0 :: real) + 0 * snd (1 :: real, 0 :: real)
                   > 40.8 + 18 * (0.55 :: real)"
      by simp
    show ?thesis
      using ponds_loop_accept [where pnds = "[]" and pondCount = 2 and tries = 0
          and x = "40.1625" and z = 0 and r = 14 and rw = pondStream and i = 13
          and nz = nz and sd = sd and rp = rp and cDir = "(1, 0)" and sPos = "40.8"
          and sWidth = 18, OF _ _ x z r river coast]
      by (simp add: pondStream_def lerp_def)
  qed
  have s2: "ponds_loop nz sd rp pondStream (1, 0) 40.8 18 2 [?A] 1 18 =
            ponds_loop nz sd rp pondStream (1, 0) 40.8 18 2 [?A, ?B] 2 23"
  proof -
    have x: "- 142.8 = lerp (- WORLD_half * 0.42) (WORLD_half * 0.42) (pondStream 18)"
      by (simp add: pondStream_def lerp_def WORLD_half_def)
    have z: "- 142.8 = lerp (- WORLD_half * 0.42) (WORLD_half * 0.42) (pondStream (18 + 1))"
      by (simp add: pondStream_def lerp_def WORLD_half_def)
    have r: "6.5 = lerp 6.5 14.5 (pondStream (18 + 2))"
      by (simp add: pondStream_def lerp_def)
    have river: "\<not> \<bar>- 142.8 - riverCenterX nz sd rp (- 142.8)\<bar>
                   < WORLD_riverBankWidth * 0.9"
      using bound [of "- 142.8"] by (simp add: WORLD_riverBankWidth_def)
    have coast: "\<not> - 142.8 * fst (1 :: real, 0 :: real) + - 142.8 * snd (1 :: real, 0 :: real)
                   > 40.8 + 18 * (0.55 :: real)"
      by simp
    have apart: "\<forall>p\<in>set [?A]. \<not> hypot (pond_x p - - 142.8) (pond_z p - - 142.8)
                                     < (pond_r p + 6.5) * 1.25"
      using hypot_ge_left [of "14637 / 80" "714 / 5"] by simp
    show ?thesis
      using ponds_loop_accept [where pnds = "[?A]" and pondCount = 2 and tries = 1
          and x = "- 142.8" and z = "- 142.8" and r = "6.5" and rw = pondStream and i = 18
          and nz = nz and sd = sd and rp = rp and cDir = "(1, 0)" and sPos = "40.8"
          and sWidth = 18, OF _ _ x z r river coast apart]
      by (simp add: pondStream_def lerp_def numeral_2_eq_2)
  qed
  have s3: "ponds_loop nz sd rp pondStream (1, 0) 40.8 18 2 [?A, ?B] 2 23 = ([?A, ?B], 23)"
    by (rule ponds_loop_done) simp
  have loop: "ponds_loop nz sd rp pondStream
                (vec2_normalize (cos (pondStream 7 * pi * 2), sin (pondStream 7 * pi * 2)))
                (lerp 0.12 0.28 (pondStream (7 + 1)) * WORLD_half) (lerp 18 40 (pondStream (7 + 2)))
                (2 + \<lfloor>pondStream (7 + 5) * 3\<rfloor>) [] 0 (7 + 6) = ([?A, ?B], 23)"
    unfolding dir sPos sWidth pc using s1 s2 s3 by simp
  have B: "BIOME W = fst (makeBiomeProfile nz sd rp pondStream ''mainland'' 7)"
    by (simp add: W BIOME_constructWorld sd_def rp_def)
  have rx: "riverX W z = riverCenterX nz sd rp z" for z
    by (simp add: W constructWorld_def Let_def sd_def rp_def)
  show ?thesis
    unfolding B rx
    by (subst ponds_makeBiomeProfile_mainland [OF _ loop])
       (simp_all add: pondStream_def lerp_def WORLD_half_def)
qed


lemma river_pond_example:
  assumes nz: "\<forall>a b c. \<bar>nz a b c\<bar> \<le> 1"
    and W: "W = fst (constructWorld nz ws pondStream (Some ''mainland''))"
  shows "\<bar>riverX W z\<bar> \<le> 19.42"
proof -
  define sd :: real where "sd = real (unat ws) * 0.000123 + 12.345"
  define rp where "rp = fst (makeRiverProfile pondStream sd 0)"
  have amp: "amp1 rp = 14" "amp2 rp = 3.92" "wobbleAmp rp = 1.5"
    by (simp_all add: rp_def makeRiverProfile_def pondStream_def lerp_def Let_def)
  have rx: "riverX W z = riverCenterX nz sd rp z"
    by (simp add: W constructWorld_def Let_def sd_def rp_def)
  show ?thesis
    unfolding rx using riverCenterX_bound [OF nz, of sd rp z] by (simp add: amp)
qed

lemma spring_overlaps_pond_example:
  assumes nz: "\<forall>a b c. \<bar>nz a b c\<bar> \<le> 1"
    and W: "W = fst (constructWorld nz ws pondStream (Some ''mainland''))"
  shows "length (ponds (BIOME W)) = 3 \<and> \<not> pondsApart (ponds (BIOME W) ! 0) (ponds (BIOME W) ! 2)"
proof -
  have "hypot (40.1625 - (riverX W 0 + 33)) (0 - 0) \<le> \<bar>40.1625 - (riverX W 0 + 33)\<bar> + \<bar>0 - 0\<bar>"
    by (rule hypot_le_abs_sum)
  then have "hypot (40.1625 - (riverX W 0 + 33)) (0 - 0) < (14 + 9) * 1.25"
    using river_pond_example [OF nz W, of 0] by simp
  then show ?thesis
    by (simp add: ponds_pond_example [OF nz W] pondsApart_def)
qed

lemma createWorldGen_pondWorld:
  "createWorldGen flatNoise (Some 1) (Some pondStream) (Some ''mainland'') = Inr pondWorld"
  by (simp add: createWorldGen_Inr pondWorld_def)

theorem loop_ponds_do_not_overlap_witness:
  "createWorldGen flatNoise (Some 1) (Some pondStream) (Some ''mainland'') = Inr pondWorld \<and>
   length (ponds (BIOME pondWorld)) = 3 \<and> springIndex (BIOME pondWorld) = 2 \<and>
   pondsApart (ponds (BIOME pondWorld) ! 0) (ponds (BIOME pondWorld) ! 1)"
proof -
  have len: "length (ponds (BIOME pondWorld)) = 3"
    by (simp add: ponds_pond_example [OF flatNoise_bounded pondWorld_def])
  have t: "springIndex (BIOME pondWorld) = int (length (ponds (BIOME pondWorld))) - 1 \<and>
         (\<forall>i j. i < length (ponds (BIOME pondWorld)) \<and> j < length (ponds (BIOME pondWorld)) \<and>
                i \<noteq> j \<and> int i \<noteq> springIndex (BIOME pondWorld) \<and>
                int j \<noteq> springIndex (BIOME pondWorld) \<longrightarrow>
                pondsApart (ponds (BIOME pondWorld) ! i) (ponds (BIOME pondWorld) ! j))"
    by (rule loop_ponds_do_not_overlap [OF createWorldGen_pondWorld]) simp
  then have si: "springIndex (BIOME pondWorld) = 2" using len by simp
  have "pondsApart (ponds (BIOME pondWorld) ! 0) (ponds (BIOME pondWorld) ! 1)"
    using t len si by simp
  then show ?thesis using createWorldGen_pondWorld len si by simp
qed

text \<open>
  The claim as stated includes the spring pond, which is appended without a test: in the world
  built from \<open>pondStream\<close> the first pond (radius 14, at \<open>x = 40.1625\<close>, \<open>z = 0\<close>) and the
  spring pond (radius 9, at \<open>z = 0\<close>, 33 to the right of the river) are closer than
  \<open>(14 + 9) * 1.25\<close>, for every noise function bounded by 1.
\<close>

theorem spring_pond_overlap_counterexample:
  "length (ponds (BIOME pondWorld)) = 3 \<and>
   \<not> pondsApart (ponds (BIOME pondWorld) ! 0) (ponds (BIOME pondWorld) ! 2)"
  by (rule spring_overlaps_pond_example [OF flatNoise_bounded pondWorld_def])

section \<open>Profile generation is bounded\<close>

lemma islands_loop_calls:
  "snd (islands_loop rw ct isls tries i) \<le> i + 6 * (5000 - tries)"
proof (induction rw ct isls tries i rule: islands_loop.induct)
  case (1 rw ct isls tries i)
  show ?case
  proof (cases "int (length isls) < ct \<and> tries < 5000")
    case False
    have "islands_loop rw ct isls tries i = (isls, i)"
      by (subst islands_loop.simps) (rule if_not_P [OF False])
    then show ?thesis by simp
  next
    case True
    have a: "n \<le> i + 2 + 6 * (5000 - (tries + 1)) \<Longrightarrow> n \<le> i + 6 * (5000 - tries)" for n
      using True by arith
    have b: "n \<le> i + 5 + 6 * (5000 - (tries + 1)) \<Longrightarrow> n \<le> i + 6 * (5000 - tries)" for n
      using True by arith
    have c: "n \<le> i + 6 + 6 * (5000 - (tries + 1)) \<Longrightarrow> n \<le> i + 6 * (5000 - tries)" for n
      using True by arith
    show ?thesis
      apply (subst islands_loop.simps)
      using True "1.IH" by (auto intro: a b c)
  qed
qed

lemma islands_loop_length:
  "int (length isls) \<le> max ct 0 \<Longrightarrow> int (length (fst (islands_loop rw ct isls tries i))) \<le> max ct 0"
proof (induction rw ct isls tries i rule: islands_loop.induct)
  case (1 rw ct isls tries i)
  show ?case
    apply (subst islands_loop.simps)
    using 1 by (auto simp add: Let_def)
qed

lemma ponds_loop_calls:
  "snd (ponds_loop nz sd rp rw cDir sPos sWidth pondCount pnds tries i) \<le> i + 5 * (650 - tries)"
proof (induction nz sd rp rw cDir sPos sWidth pondCount pnds tries i rule: ponds_loop.induct)
  case (1 nz sd rp rw cDir sPos sWidth pondCount pnds tries i)
  show ?case
  proof (cases "int (length pnds) < pondCount \<and> tries < 650")
    case False
    have "ponds_loop nz sd rp rw cDir sPos sWidth pondCount pnds tries i = (pnds, i)"
      by (subst ponds_loop.simps) (rule if_not_P [OF False])
    then show ?thesis by simp
  next
    case True
    have a: "n \<le> i + 2 + 5 * (650 - (tries + 1)) \<Longrightarrow> n \<le> i + 5 * (650 - tries)" for n
      using True by arith
    have b: "n \<le> i + 5 + 5 * (650 - (tries + 1)) \<Longrightarrow> n \<le> i + 5 * (650 - tries)" for n
      using True by arith
    show ?thesis
      apply (subst ponds_loop.simps)
      using True "1.IH" by (auto intro: a b)
  qed
qed

lemma ponds_loop_length:
  "int (length pnds) \<le> max pondCount 0 \<Longrightarrow>
   int (length (fst (ponds_loop nz sd rp rw cDir sPos sWidth pondCount pnds tries i))) \<le> max pondCount 0"
proof (induction nz sd rp rw cDir sPos sWidth pondCount pnds tries i rule: ponds_loop.induct)
  case (1 nz sd rp rw cDir sPos sWidth pondCount pnds tries i)
  show ?case
    apply (subst ponds_loop.simps)
    using 1 by (auto simp add: Let_def)
qed

lemma peak_loop_calls: "snd (peak_loop rw B n i) \<le> i + 2 * n"
proof (induction n arbitrary: i)
  case 0
  then show ?case by simp
next
  case (Suc n)
  show ?case using Suc [of "i + 2"] by (simp add: Let_def)
qed

lemma volcano_loop_calls: "snd (volcano_loop nz sd rp B rng n i) \<le> i + 2 * n"
proof (induction n arbitrary: i)
  case 0
  then show ?case by simp
next
  case (Suc n)
  show ?case using Suc [of "i + 2"] by (simp add: Let_def)
qed

lemma ruins_loop_calls: "snd (ruins_loop nz sd rp B rng n i) \<le> i + 2 * n"
proof (induction n arbitrary: i)
  case 0
  then show ?case by simp
next
  case (Suc n)
  show ?case using Suc [of "i + 2"] by (simp add: Let_def)
qed

lemma feature_draw_calls:
  "i + 4 \<le> snd (feature_draw rw sty i) \<and> snd (feature_draw rw sty i) \<le> i + 6"
  by (simp add: feature_draw_def Let_def)

lemma features_loop_calls: "snd (features_loop rw sty n feats i) \<le> i + 6 * n"
proof (induction n arbitrary: feats i)
  case 0
  then show ?case by simp
next
  case (Suc n)
  have "snd (features_loop rw sty n (feats @ [fst (feature_draw rw sty i)])
               (snd (feature_draw rw sty i)))
          \<le> snd (feature_draw rw sty i) + 6 * n"
    by (rule Suc)
  then show ?case using feature_draw_calls [of i rw sty] by simp
qed

lemma ridges_loop_calls: "snd (ridges_loop rw sty n rdgs i) = i + 5 * n"
proof (induction n arbitrary: rdgs i)
  case 0
  then show ?case by simp
next
  case (Suc n)
  show ?case by (simp add: Let_def Suc)
qed


lemma makeBiomeProfile_calls:
  "snd (makeBiomeProfile nz sd rp rw m i) \<le> i + (if m = ''miniIslands'' then 30002 else 3265)"
proof (cases "m = ''miniIslands''")
  case True
  then show ?thesis
    using islands_loop_calls [of rw "18 + \<lfloor>rw (i + 1) * 15\<rfloor>" "[]" 0 "i + 2"]
    by (simp add: makeBiomeProfile_def Let_def)
next
  case False
  then show ?thesis
    using ponds_loop_calls [of nz sd rp rw
        "vec2_normalize (cos (rw i * pi * 2), sin (rw i * pi * 2))"
        "lerp 0.12 0.28 (rw (i + 1)) * WORLD_half" "lerp 18 40 (rw (i + 2))"
        "2 + \<lfloor>rw (i + 5) * 3\<rfloor>" "[]" 0 "i + 6"]
    by (simp add: makeBiomeProfile_def Let_def)
qed

lemma floor_lerp_3_8: "0 \<le> u \<Longrightarrow> u < 1 \<Longrightarrow> nat \<lfloor>lerp 3 8 u\<rfloor> \<le> 7"
proof -
  assume "0 \<le> u" "u < 1"
  then have "lerp 3 8 u < 8" by (simp add: lerp_def)
  then have "\<lfloor>lerp 3 8 u\<rfloor> < 8" by (simp add: floor_less_iff)
  then show ?thesis by linarith
qed

lemma floor_lerp_1_3: "0 \<le> u \<Longrightarrow> u < 1 \<Longrightarrow> nat \<lfloor>lerp 1 3 u\<rfloor> \<le> 2"
proof -
  assume "0 \<le> u" "u < 1"
  then have "lerp 1 3 u < 3" by (simp add: lerp_def)
  then have "\<lfloor>lerp 1 3 u\<rfloor> < 3" by (simp add: floor_less_iff)
  then show ?thesis by linarith
qed

lemma makeTerrainProfile_calls:
  assumes "\<forall>k. 0 \<le> rw k \<and> rw k < 1"
  shows "snd (makeTerrainProfile rw B i) \<le> i + (if kind B = miniIslands then 0 else 226)"
proof (cases "kind B = miniIslands")
  case True
  then show ?thesis by (simp add: makeTerrainProfile_def Let_def)
next
  case False
  define sty where "sty = (if rw i < 0.26 then style_alpine else if rw i < 0.54 then style_plateau
                    else if rw i < 0.78 then style_canyon else style_rolling)"
  define fs where "fs = features_loop rw sty (nat \<lfloor>lerp 3 8 (rw (i + 6))\<rfloor>) [] (i + 7)"
  define pl where "pl = peak_loop rw B 80 (snd fs)"
  define j where "j = (case fst pl of Some (x, z) \<Rightarrow> snd pl | None \<Rightarrow> snd pl + 2)"
  define rs where "rs = ridges_loop rw sty (nat \<lfloor>lerp 1 3 (rw (j + 2))\<rfloor>) [] (j + 3)"
  have a: "snd fs \<le> i + 7 + 6 * 7"
    using features_loop_calls [of rw sty "nat \<lfloor>lerp 3 8 (rw (i + 6))\<rfloor>" "[]" "i + 7"]
      floor_lerp_3_8 [of "rw (i + 6)"] assms
    by (simp add: fs_def)
  have b: "snd pl \<le> snd fs + 160"
    using peak_loop_calls [of rw B 80 "snd fs"] by (simp add: pl_def)
  have c: "j \<le> snd pl + 2"
    by (simp add: j_def split: option.split prod.split)
  have d: "snd rs \<le> j + 3 + 5 * 2"
    using ridges_loop_calls [of rw sty "nat \<lfloor>lerp 1 3 (rw (j + 2))\<rfloor>" "[]" "j + 3"]
      floor_lerp_1_3 [of "rw (j + 2)"] assms
    by (simp add: rs_def)
  have "snd (makeTerrainProfile rw B i) = snd rs + 2"
    using False
    by (simp add: makeTerrainProfile_def Let_def rs_def j_def pl_def fs_def sty_def
        split: option.split prod.split)
  then show ?thesis using a b c d False by simp
qed

lemma makeECO_calls: "snd (makeECO nz sd rp B ws) \<le> 766"
proof -
  define rng where "rng = mulberry32_seq (mulberry32 (sint (ws XOR 0x6f3a2c91)))"
  define vl where "vl = volcano_loop nz sd rp B rng 160 0"
  define j where "j = (case fst vl of Some (x, z) \<Rightarrow> snd vl | None \<Rightarrow> snd vl + 2)"
  define rl where "rl = ruins_loop nz sd rp B rng 220 (j + 1)"
  define k where "k = (case fst rl of Some (x, z) \<Rightarrow> snd rl | None \<Rightarrow> snd rl + 2)"
  have a: "snd vl \<le> 320" using volcano_loop_calls [of nz sd rp B rng 160 0] by (simp add: vl_def)
  have b: "j \<le> snd vl + 2" by (simp add: j_def split: option.split prod.split)
  have c: "snd rl \<le> j + 1 + 440"
    using ruins_loop_calls [of nz sd rp B rng 220 "j + 1"] by (simp add: rl_def)
  have d: "k \<le> snd rl + 2" by (simp add: k_def split: option.split prod.split)
  have "snd (makeECO nz sd rp B ws) = k + 1"
    by (simp add: makeECO_def Let_def k_def rl_def j_def vl_def rng_def
        split: option.split prod.split)
  then show ?thesis using a b c d by simp
qed

lemma constructWorld_calls:
  assumes "\<forall>k. 0 \<le> rw k \<and> rw k < 1"
  shows "fst (snd (constructWorld nz ws rw bm))
           \<le> (if bm = Some ''miniIslands'' then 30009 else 3498)"
proof -
  define m where "m = (case bm of Some m \<Rightarrow> m | None \<Rightarrow> ''mainland'')"
  define sd :: real where "sd = real (unat ws) * 0.000123 + 12.345"
  define rp where "rp = fst (makeRiverProfile rw sd 0)"
  define b where "b = makeBiomeProfile nz sd rp rw m 7"
  have m: "m = ''miniIslands'' \<longleftrightarrow> bm = Some ''miniIslands''"
    by (simp add: m_def split: option.split)
  have k: "kind (fst b) = miniIslands \<longleftrightarrow> bm = Some ''miniIslands''"
    by (simp add: b_def kind_makeBiomeProfile m)
  have e: "fst (snd (constructWorld nz ws rw bm)) = snd (makeTerrainProfile rw (fst b) (snd b))"
    by (simp add: constructWorld_def Let_def b_def rp_def sd_def m_def makeRiverProfile_def)
  have "snd b \<le> 7 + (if m = ''miniIslands'' then 30002 else 3265)"
    unfolding b_def by (rule makeBiomeProfile_calls)
  moreover have "snd (makeTerrainProfile rw (fst b) (snd b))
                   \<le> snd b + (if kind (fst b) = miniIslands then 0 else 226)"
    by (rule makeTerrainProfile_calls [OF assms])
  ultimately show ?thesis unfolding e using m k by (simp split: if_splits)
qed

lemma constructWorld_rng_calls: "snd (snd (constructWorld nz ws rw bm)) \<le> 766"
  by (simp add: constructWorld_def Let_def makeECO_calls)


lemma islands_length_bound:
  assumes "\<forall>k. 0 \<le> rw k \<and> rw k < 1"
  shows "length (islands (fst (makeBiomeProfile nz sd rp rw m i))) \<le> 32"
proof (cases "m = ''miniIslands''")
  case True
  have "rw (i + 1) * 15 < 15" using assms by simp
  then have "\<lfloor>rw (i + 1) * 15\<rfloor> < 15" by (simp add: floor_less_iff)
  then have ct: "max (18 + \<lfloor>rw (i + 1) * 15\<rfloor>) 0 \<le> 32" by linarith
  have "int (length (fst (islands_loop rw (18 + \<lfloor>rw (i + 1) * 15\<rfloor>) [] 0 (i + 2))))
          \<le> max (18 + \<lfloor>rw (i + 1) * 15\<rfloor>) 0"
    by (rule islands_loop_length) simp
  then have "length (fst (islands_loop rw (18 + \<lfloor>rw (i + 1) * 15\<rfloor>) [] 0 (i + 2))) \<le> 32"
    using ct by linarith
  then show ?thesis using True by (simp add: islands_makeBiomeProfile)
next
  case False
  then show ?thesis by (simp add: makeBiomeProfile_def Let_def)
qed

lemma ponds_length_bound:
  assumes "\<forall>k. 0 \<le> rw k \<and> rw k < 1"
  shows "length (ponds (fst (makeBiomeProfile nz sd rp rw m i))) \<le> 5"
proof (cases "m = ''miniIslands''")
  case True
  then show ?thesis by (simp add: makeBiomeProfile_def Let_def)
next
  case False
  let ?lp = "fst (ponds_loop nz sd rp rw
                    (vec2_normalize (cos (rw i * pi * 2), sin (rw i * pi * 2)))
                    (lerp 0.12 0.28 (rw (i + 1)) * WORLD_half) (lerp 18 40 (rw (i + 2)))
                    (2 + \<lfloor>rw (i + 5) * 3\<rfloor>) [] 0 (i + 6))"
  have "rw (i + 5) * 3 < 3" using assms by simp
  then have "\<lfloor>rw (i + 5) * 3\<rfloor> < 3" by (simp add: floor_less_iff)
  then have pc: "max (2 + \<lfloor>rw (i + 5) * 3\<rfloor>) 0 \<le> 4" by linarith
  have "int (length ?lp) \<le> max (2 + \<lfloor>rw (i + 5) * 3\<rfloor>) 0"
    by (rule ponds_loop_length) simp
  then have "length ?lp \<le> 4" using pc by linarith
  moreover obtain spring where "ponds (fst (makeBiomeProfile nz sd rp rw m i)) = ?lp @ [spring]"
    using ponds_makeBiomeProfile [OF False, of nz sd rp rw i] by blast
  ultimately show ?thesis by simp
qed

text \<open>
  Claim C7. For every seed, every \<^verbatim>\<open>randWorld\<close> and every biome mode, \<^verbatim>\<open>createWorldGen\<close>
  returns a world generator and raises no error. Every loop of the profile generation is
  bounded, so the number of random values drawn is bounded: the generator local to
  \<^verbatim>\<open>ECO\<close> is called at most \<open>2 * 160 + 2 + 1 + 2 * 220 + 2 + 1 = 766\<close> times (volcano and
  ruins, each with its fallback), and when \<^verbatim>\<open>randWorld\<close> returns values in the unit interval
  it is called at most \<open>7 + 2 + 6 * 5000 = 30009\<close> times in \<^verbatim>\<open>miniIslands\<close> mode and at most
  \<open>7 + 6 + 5 * 650 + 9 + 226 = 3498\<close> times otherwise (650 pond tries, then the terrain
  profile with its 80 tries for the peak), giving at most 32 islands and at most 5 ponds.
\<close>

theorem profile_generation_terminates:
  "(\<exists>W. createWorldGen nz (Some worldSeed) (Some randWorld) biomeMode = Inr W) \<and>
   snd (snd (constructWorld nz worldSeed randWorld biomeMode)) \<le> 766 \<and>
   ((\<forall>k. 0 \<le> randWorld k \<and> randWorld k < 1) \<longrightarrow>
      fst (snd (constructWorld nz worldSeed randWorld biomeMode))
        \<le> (if biomeMode = Some ''miniIslands'' then 30009 else 3498) \<and>
      length (islands (BIOME (fst (constructWorld nz worldSeed randWorld biomeMode)))) \<le> 32 \<and>
      length (ponds (BIOME (fst (constructWorld nz worldSeed randWorld biomeMode)))) \<le> 5)"
proof (intro conjI impI)
  show "\<exists>W. createWorldGen nz (Some worldSeed) (Some randWorld) biomeMode = Inr W"
    by (simp add: createWorldGen_def)
  show "snd (snd (constructWorld nz worldSeed randWorld biomeMode)) \<le> 766"
    by (rule constructWorld_rng_calls)
next
  assume r: "\<forall>k. 0 \<le> randWorld k \<and> randWorld k < 1"
  show "fst (snd (constructWorld nz worldSeed randWorld biomeMode))
        \<le> (if biomeMode = Some ''miniIslands'' then 30009 else 3498)"
    by (rule constructWorld_calls [OF r])
  show "length (islands (BIOME (fst (constructWorld nz worldSeed randWorld biomeMode)))) \<le> 32"
    unfolding BIOME_constructWorld by (rule islands_length_bound [OF r])
  show "length (ponds (BIOME (fst (constructWorld nz worldSeed randWorld biomeMode)))) \<le> 5"
    unfolding BIOME_constructWorld by (rule ponds_length_bound [OF r])
qed

theorem profile_generation_terminates_witness:
  "createWorldGen flatNoise (Some 777) (Some (mulberry32_seq (mulberry32 777)))
     (Some ''miniIslands'') = Inr exampleIslands \<and>
   (\<forall>k. 0 \<le> mulberry32_seq (mulberry32 777) k \<and> mulberry32_seq (mulberry32 777) k < 1) \<and>
   fst (snd (constructWorld flatNoise 777 (mulberry32_seq (mulberry32 777))
               (Some ''miniIslands''))) \<le> 30009 \<and>
   length (islands (BIOME exampleIslands)) \<le> 32 \<and> length (ponds (BIOME exampleIslands)) \<le> 5"
proof -
  have r: "\<forall>k. 0 \<le> mulberry32_seq (mulberry32 777) k \<and> mulberry32_seq (mulberry32 777) k < 1"
    by (simp add: mulberry32_seq_range)
  show ?thesis
    using r createWorldGen_exampleIslands
      profile_generation_terminates [of flatNoise 777 "mulberry32_seq (mulberry32 777)"
        "Some ''miniIslands''"]
    by (simp add: exampleIslands_def)
qed

section \<open>Base octaves\<close>

lemma mainland_pipeline:
  assumes "kind (BIOME W) \<noteq> miniIslands"
  shows "terrainHeightRaw W x z =
     (let xw = fst (warp W x z); zw = snd (warp W x z)
      in edgeFade x z
           (pondBasins W xw zw
             (waterfallRavine W xw zw
               (volcanicRegion W xw zw
                 (sandyCoast W x z
                   (terracing W
                     (base W xw zw * baseAmp (TERRAIN_PROFILE W)
                      + \<bar>noise W (xw * 0.011) (zw * 0.011) (seed W + 40)\<bar> powr 1.85
                        * ridgeAmp (TERRAIN_PROFILE W)
                      + noise W (xw * 0.33) (zw * 0.33) (seed W + 80) * microAmp (TERRAIN_PROFILE W)
                      + macroLandforms W xw zw
                      + ridgeLines W xw zw)))))))"
  using assms by (simp add: terrainHeightRaw_def mainlandHeightRaw_def Let_def)

lemma base_spec: "base W xw zw = spec_octave_blend W xw zw"
  by (simp add: base_def spec_octave_blend_def spec_octaves_def Let_def)

lemma spec_octaves_weights: "(\<Sum>(f, w, off) \<leftarrow> spec_octaves. w) = 2.47"
  by (simp add: spec_octaves_def)

text \<open>
  Claim C6. In mainland mode the base term of \<^verbatim>\<open>terrainHeightRaw\<close> is the sum of the noise
  sampled at the domain-warped coordinates at the four frequencies 0.018, 0.042, 0.088, 0.25
  with the weights 1.25, 0.75, 0.35, 0.12, divided by the sum of the weights, which is 2.47; it
  enters the height multiplied by \<^verbatim>\<open>baseAmp\<close>, before the terracing, at every \<open>(x, z)\<close>.
\<close>

theorem base_term_is_normalised_octave_sum:
  "base W xw zw = spec_octave_blend W xw zw \<and>
   (\<Sum>(f, w, off) \<leftarrow> spec_octaves. w) = 2.47 \<and>
   (kind (BIOME W) \<noteq> miniIslands \<longrightarrow>
      terrainHeightRaw W x z =
        (let xw = fst (warp W x z); zw = snd (warp W x z)
         in edgeFade x z
              (pondBasins W xw zw
                (waterfallRavine W xw zw
                  (volcanicRegion W xw zw
                    (sandyCoast W x z
                      (terracing W
                        (spec_octave_blend W xw zw * baseAmp (TERRAIN_PROFILE W)
                         + \<bar>noise W (xw * 0.011) (zw * 0.011) (seed W + 40)\<bar> powr 1.85
                           * ridgeAmp (TERRAIN_PROFILE W)
                         + noise W (xw * 0.33) (zw * 0.33) (seed W + 80)
                           * microAmp (TERRAIN_PROFILE W)
                         + macroLandforms W xw zw
                         + ridgeLines W xw zw))))))))"
  using mainland_pipeline [of W x z] by (simp add: base_spec spec_octaves_weights)

theorem base_term_is_normalised_octave_sum_witness:
  "kind (BIOME exampleMainland) \<noteq> miniIslands \<and>
   terrainHeightRaw exampleMainland 10 20 =
        (let xw = fst (warp exampleMainland 10 20); zw = snd (warp exampleMainland 10 20)
         in edgeFade 10 20
              (pondBasins exampleMainland xw zw
                (waterfallRavine exampleMainland xw zw
                  (volcanicRegion exampleMainland xw zw
                    (sandyCoast exampleMainland 10 20
                      (terracing exampleMainland
                        (spec_octave_blend exampleMainland xw zw
                           * baseAmp (TERRAIN_PROFILE exampleMainland)
                         + \<bar>noise exampleMainland (xw * 0.011) (zw * 0.011)
                              (seed exampleMainland + 40)\<bar> powr 1.85
                           * ridgeAmp (TERRAIN_PROFILE exampleMainland)
                         + noise exampleMainland (xw * 0.33) (zw * 0.33)
                             (seed exampleMainland + 80)
                           * microAmp (TERRAIN_PROFILE exampleMainland)
                         + macroLandforms exampleMainland xw zw
                         + ridgeLines exampleMainland xw zw)))))))"
  using base_term_is_normalised_octave_sum [of exampleMainland _ _ 10 20] kind_exampleMainland
  by simp


section \<open>Volcanic crater\<close>

lemma volcanicRegion_formula:
  assumes "0 < poi_r (volcano (ECO W))"
  shows "volcanicRegion W xw zw h =
           (if craterBowlT (poi_r (volcano (ECO W))) (craterDistance W xw zw) > 0.001
            then lerp (craterBowlRim W xw zw h)
                   (real_of_int \<lfloor>craterBowlRim W xw zw h / 0.65\<rfloor> * 0.65)
                   (craterBowlT (poi_r (volcano (ECO W))) (craterDistance W xw zw) * 0.22)
            else h)"
proof -
  let ?r = "poi_r (volcano (ECO W))"
  let ?d = "hypot (xw - poi_x (volcano (ECO W))) (zw - poi_z (volcano (ECO W)))"
  let ?bowlT = "1 - smoothstep (?r * 0.18) (?r * 0.95) ?d"
  show ?thesis
  proof (cases "?bowlT > 0.001")
    case False
    then show ?thesis
      by (simp add: volcanicRegion_def craterBowlT_def craterDistance_def Let_def)
  next
    case True
    have d0: "0 \<le> ?d" by (simp add: hypot_def)
    have lt: "?d < ?r * 0.95"
    proof (rule ccontr)
      assume "\<not> ?d < ?r * 0.95"
      then have "smoothstep (?r * 0.18) (?r * 0.95) ?d = 1"
        using assms by (intro smoothstep_one) simp_all
      then show False using True by simp
    qed
    have "0 \<le> ?d / (?r * 0.95)" "?d / (?r * 0.95) \<le> 1"
      using d0 lt assms by simp_all
    then have u: "clamp (?d / (?r * 0.95)) 0 1 = ?d / (?r * 0.95)"
      by (simp add: clamp_def)
    show ?thesis
      unfolding volcanicRegion_def craterBowlRim_def craterBowlT_def craterBowl_def craterRim_def
        craterDistance_def Let_def u
      by (simp add: algebra_simps)
  qed
qed

lemma craterBowlT_range: "0 \<le> craterBowlT r d \<and> craterBowlT r d \<le> 1"
  using smoothstep_range [of "r * 0.18" "r * 0.95" d] by (simp add: craterBowlT_def)

lemma craterBowlT_zero_iff: "0 < r \<Longrightarrow> craterBowlT r d = 0 \<longleftrightarrow> r * 0.95 \<le> d"
  using smoothstep_eq_1_iff [of "r * 0.18" "r * 0.95" d] by (simp add: craterBowlT_def)

lemma craterBowlT_one_iff: "0 < r \<Longrightarrow> craterBowlT r d = 1 \<longleftrightarrow> d \<le> r * 0.18"
  using smoothstep_eq_0_iff [of "r * 0.18" "r * 0.95" d] by (simp add: craterBowlT_def)

lemma mild_terrace:
  assumes "0 \<le> s" and "s \<le> 0.22"
  shows "h - 0.65 * 0.22 \<le> lerp h (real_of_int \<lfloor>h / 0.65\<rfloor> * 0.65) s \<and>
         lerp h (real_of_int \<lfloor>h / 0.65\<rfloor> * 0.65) s \<le> h"
proof -
  define t where "t = real_of_int \<lfloor>h / 0.65\<rfloor> * 0.65"
  have "real_of_int \<lfloor>h / 0.65\<rfloor> \<le> h / 0.65" by (rule of_int_floor_le)
  then have up: "t \<le> h" by (simp add: t_def)
  have "h / 0.65 < real_of_int \<lfloor>h / 0.65\<rfloor> + 1" by (rule real_of_int_floor_add_one_gt)
  then have lo: "h - 0.65 < t" by (simp add: t_def field_simps)
  have a: "(t - h) * s \<le> 0" using up assms(1) by (simp add: mult_nonpos_nonneg)
  have "(h - t) * s \<le> 0.65 * 0.22"
    using lo up assms by (intro mult_mono) simp_all
  then have b: "- (0.65 * 0.22) \<le> (t - h) * s" by (simp add: algebra_simps)
  show ?thesis
    using a b unfolding lerp_def t_def [symmetric] by linarith
qed

lemma craterRim_peak:
  assumes "0 < r"
  shows "craterRim r d \<le> 1 \<and> (craterRim r d = 1 \<longleftrightarrow> d = r * 0.55)"
proof -
  have den: "0 < 2 * (r * 0.12) * (r * 0.12)" using assms by simp
  have "0 \<le> (d - r * 0.55) * (d - r * 0.55)" by simp
  then have "- ((d - r * 0.55) * (d - r * 0.55)) / (2 * (r * 0.12) * (r * 0.12)) \<le> 0"
    using den by (simp add: divide_nonpos_pos)
  moreover have "- ((d - r * 0.55) * (d - r * 0.55)) / (2 * (r * 0.12) * (r * 0.12)) = 0
                   \<longleftrightarrow> d = r * 0.55"
    using assms by simp
  ultimately show ?thesis unfolding craterRim_def by (simp only: exp_le_one_iff exp_eq_one_iff)
qed


lemma volcanicRegion_mild_terrace:
  assumes "0 < poi_r (volcano (ECO W))"
  shows "if craterBowlT (poi_r (volcano (ECO W))) (craterDistance W xw zw) > 0.001
         then craterBowlRim W xw zw h - 0.65 * 0.22 \<le> volcanicRegion W xw zw h \<and>
              volcanicRegion W xw zw h \<le> craterBowlRim W xw zw h
         else volcanicRegion W xw zw h = h"
proof -
  let ?t = "craterBowlT (poi_r (volcano (ECO W))) (craterDistance W xw zw)"
  have "0 \<le> ?t * 0.22" "?t * 0.22 \<le> 0.22"
    using craterBowlT_range [of "poi_r (volcano (ECO W))" "craterDistance W xw zw"] by simp_all
  then show ?thesis
    using mild_terrace [of "?t * 0.22" "craterBowlRim W xw zw h"]
    by (simp add: volcanicRegion_formula [OF assms])
qed

lemma ECO_constructWorld:
  "ECO (fst (constructWorld nz ws rw bm)) =
     fst (makeECO nz (real (unat ws) * 0.000123 + 12.345)
            (fst (makeRiverProfile rw (real (unat ws) * 0.000123 + 12.345) 0))
            (BIOME (fst (constructWorld nz ws rw bm))) ws)"
  by (simp add: constructWorld_def Let_def)

lemma noise_constructWorld: "noise (fst (constructWorld nz ws rw bm)) = nz"
  by (simp add: constructWorld_def Let_def)

lemma volcano_radius_makeECO:
  "44 \<le> poi_r (volcano (fst (makeECO nz sd rp B ws))) \<and>
   poi_r (volcano (fst (makeECO nz sd rp B ws))) \<le> 70"
proof -
  have "44 \<le> lerp 44 70 (mulberry32_seq t n) \<and> lerp 44 70 (mulberry32_seq t n) \<le> 70" for t n
    using mulberry32_seq_range [of t n] by (intro lerp_range) simp_all
  then show ?thesis by (simp add: makeECO_def Let_def)
qed

lemma volcano_radius_constructWorld:
  "44 \<le> poi_r (volcano (ECO (fst (constructWorld nz ws rw bm)))) \<and>
   poi_r (volcano (ECO (fst (constructWorld nz ws rw bm)))) \<le> 70"
  unfolding ECO_constructWorld by (rule volcano_radius_makeECO)


text \<open>
  Claim C3, as amended. For every seed, in a mainland world, \<^verbatim>\<open>terrainHeightRaw\<close> passes the
  height through the crater block at the domain-warped point, after the coast and before the
  waterfall ravine. The volcano radius \<open>r\<close> lies between 44 and 70. The block acts where the
  bowl strength exceeds 0.001; the strength is 1 up to \<open>0.18 * r\<close> from the centre and 0 exactly
  from \<open>0.95 * r\<close> on, where the height is unchanged. Where it acts it adds the rim bump, which
  has its maximum 1 exactly at \<open>0.55 * r\<close>, subtracts the bowl \<open>(1 - d / (0.95 * r))\<^sup>2\<close>, and
  then moves the height towards the next lower multiple of 0.65 by the fraction
  \<open>0.22 * strength\<close>, that is down by at most \<open>0.65 * 0.22\<close>.
\<close>

theorem volcanic_crater_on_the_mainland:
  assumes "createWorldGen nz (Some worldSeed) (Some randWorld) biomeMode = Inr W"
    and "biomeMode \<noteq> Some ''miniIslands''"
  shows "terrainHeightRaw W x z =
           (let xw = fst (warp W x z); zw = snd (warp W x z);
                before =
                  sandyCoast W x z
                    (terracing W
                      (base W xw zw * baseAmp (TERRAIN_PROFILE W)
                       + \<bar>noise W (xw * 0.011) (zw * 0.011) (seed W + 40)\<bar> powr 1.85
                         * ridgeAmp (TERRAIN_PROFILE W)
                       + noise W (xw * 0.33) (zw * 0.33) (seed W + 80)
                         * microAmp (TERRAIN_PROFILE W)
                       + macroLandforms W xw zw
                       + ridgeLines W xw zw))
            in edgeFade x z
                 (pondBasins W xw zw (waterfallRavine W xw zw (volcanicRegion W xw zw before)))) \<and>
         44 \<le> poi_r (volcano (ECO W)) \<and> poi_r (volcano (ECO W)) \<le> 70 \<and>
         (\<forall>xw zw h.
            volcanicRegion W xw zw h =
              (if craterBowlT (poi_r (volcano (ECO W))) (craterDistance W xw zw) > 0.001
               then lerp (craterBowlRim W xw zw h)
                      (real_of_int \<lfloor>craterBowlRim W xw zw h / 0.65\<rfloor> * 0.65)
                      (craterBowlT (poi_r (volcano (ECO W))) (craterDistance W xw zw) * 0.22)
               else h) \<and>
            (if craterBowlT (poi_r (volcano (ECO W))) (craterDistance W xw zw) > 0.001
             then craterBowlRim W xw zw h - 0.65 * 0.22 \<le> volcanicRegion W xw zw h \<and>
                  volcanicRegion W xw zw h \<le> craterBowlRim W xw zw h
             else volcanicRegion W xw zw h = h)) \<and>
         (\<forall>d. (craterBowlT (poi_r (volcano (ECO W))) d = 0
                  \<longleftrightarrow> poi_r (volcano (ECO W)) * 0.95 \<le> d) \<and>
              (craterBowlT (poi_r (volcano (ECO W))) d = 1
                  \<longleftrightarrow> d \<le> poi_r (volcano (ECO W)) * 0.18) \<and>
              craterRim (poi_r (volcano (ECO W))) d \<le> 1 \<and>
              (craterRim (poi_r (volcano (ECO W))) d = 1
                  \<longleftrightarrow> d = poi_r (volcano (ECO W)) * 0.55))"
proof -
  have W: "W = fst (constructWorld nz worldSeed randWorld biomeMode)"
    using assms(1) by (simp add: createWorldGen_Inr)
  have k: "kind (BIOME W) \<noteq> miniIslands"
    using assms(2) by (simp add: W kind_constructWorld)
  have r: "44 \<le> poi_r (volcano (ECO W))" "poi_r (volcano (ECO W)) \<le> 70"
    using volcano_radius_constructWorld [of nz worldSeed randWorld biomeMode] by (simp_all add: W)
  then have r0: "0 < poi_r (volcano (ECO W))" by simp
  show ?thesis
  proof (intro conjI allI)
    show "terrainHeightRaw W x z =
           (let xw = fst (warp W x z); zw = snd (warp W x z);
                before =
                  sandyCoast W x z
                    (terracing W
                      (base W xw zw * baseAmp (TERRAIN_PROFILE W)
                       + \<bar>noise W (xw * 0.011) (zw * 0.011) (seed W + 40)\<bar> powr 1.85
                         * ridgeAmp (TERRAIN_PROFILE W)
                       + noise W (xw * 0.33) (zw * 0.33) (seed W + 80)
                         * microAmp (TERRAIN_PROFILE W)
                       + macroLandforms W xw zw
                       + ridgeLines W xw zw))
            in edgeFade x z
                 (pondBasins W xw zw (waterfallRavine W xw zw (volcanicRegion W xw zw before))))"
      using mainland_pipeline [OF k, of x z] by (simp add: Let_def)
    show "44 \<le> poi_r (volcano (ECO W))" by (rule r)
    show "poi_r (volcano (ECO W)) \<le> 70" by (rule r)
    show "volcanicRegion W xw zw h =
              (if craterBowlT (poi_r (volcano (ECO W))) (craterDistance W xw zw) > 0.001
               then lerp (craterBowlRim W xw zw h)
                      (real_of_int \<lfloor>craterBowlRim W xw zw h / 0.65\<rfloor> * 0.65)
                      (craterBowlT (poi_r (volcano (ECO W))) (craterDistance W xw zw) * 0.22)
               else h)" for xw zw h
      by (rule volcanicRegion_formula [OF r0])
    show "if craterBowlT (poi_r (volcano (ECO W))) (craterDistance W xw zw) > 0.001
             then craterBowlRim W xw zw h - 0.65 * 0.22 \<le> volcanicRegion W xw zw h \<and>
                  volcanicRegion W xw zw h \<le> craterBowlRim W xw zw h
             else volcanicRegion W xw zw h = h" for xw zw h
      by (rule volcanicRegion_mild_terrace [OF r0])
    show "craterBowlT (poi_r (volcano (ECO W))) d = 0 \<longleftrightarrow> poi_r (volcano (ECO W)) * 0.95 \<le> d"
      for d by (rule craterBowlT_zero_iff [OF r0])
    show "craterBowlT (poi_r (volcano (ECO W))) d = 1 \<longleftrightarrow> d \<le> poi_r (volcano (ECO W)) * 0.18"
      for d by (rule craterBowlT_one_iff [OF r0])
    show "craterRim (poi_r (volcano (ECO W))) d \<le> 1" for d
      using craterRim_peak [OF r0, of d] by simp
    show "craterRim (poi_r (volcano (ECO W))) d = 1 \<longleftrightarrow> d = poi_r (volcano (ECO W)) * 0.55"
      for d using craterRim_peak [OF r0, of d] by simp
  qed
qed

lemma createWorldGen_exampleMainland:
  "createWorldGen flatNoise (Some 12345) (Some (mulberry32_seq (mulberry32 12345)))
     (Some ''mainland'') = Inr exampleMainland"
  by (simp add: createWorldGen_Inr exampleMainland_def)

theorem volcanic_crater_on_the_mainland_witness:
  "createWorldGen flatNoise (Some 12345) (Some (mulberry32_seq (mulberry32 12345)))
     (Some ''mainland'') = Inr exampleMainland \<and>
   44 \<le> poi_r (volcano (ECO exampleMainland)) \<and> poi_r (volcano (ECO exampleMainland)) \<le> 70 \<and>
   craterBowlT (poi_r (volcano (ECO exampleMainland))) 100 = 0 \<and>
   volcanicRegion exampleMainland (poi_x (volcano (ECO exampleMainland)) + 100)
     (poi_z (volcano (ECO exampleMainland))) 5 = 5"
proof -
  let ?r = "poi_r (volcano (ECO exampleMainland))"
  let ?vx = "poi_x (volcano (ECO exampleMainland))"
  let ?vz = "poi_z (volcano (ECO exampleMainland))"
  have ne: "Some ''mainland'' \<noteq> Some ''miniIslands''" by simp
  note t = volcanic_crater_on_the_mainland [OF createWorldGen_exampleMainland ne, of 0 0]
  have r: "44 \<le> ?r" "?r \<le> 70" using t by simp_all
  have z: "craterBowlT ?r 100 = 0" using t r by simp
  have d: "craterDistance exampleMainland (?vx + 100) ?vz = 100"
    by (simp add: craterDistance_def hypot_def)
  note c = t [THEN conjunct2, THEN conjunct2, THEN conjunct2, THEN conjunct1, rule_format,
      THEN conjunct1, of "?vx + 100" ?vz 5]
  have "volcanicRegion exampleMainland (?vx + 100) ?vz 5 = 5"
    by (subst c) (simp add: d z)
  then show ?thesis using createWorldGen_exampleMainland r z by simp
qed


lemma volcano_loop_islands:
  "kind B = miniIslands \<Longrightarrow>
   volcano_loop nz sd rp B rng (Suc n) i =
     (Some (lerp (- WORLD_half * 0.5) (WORLD_half * 0.5) (rng i),
            lerp (- WORLD_half * 0.5) (WORLD_half * 0.5) (rng (i + 1))), i + 2)"
  by (simp add: Let_def)

lemma volcano_makeECO_islands:
  assumes "kind B = miniIslands"
  shows "volcano (fst (makeECO nz sd rp B ws)) =
     \<lparr>poi_x = lerp (- WORLD_half * 0.5) (WORLD_half * 0.5)
                (mulberry32_seq (mulberry32 (sint (ws XOR 0x6f3a2c91))) 0),
      poi_z = lerp (- WORLD_half * 0.5) (WORLD_half * 0.5)
                (mulberry32_seq (mulberry32 (sint (ws XOR 0x6f3a2c91))) 1),
      poi_r = lerp 44 70 (mulberry32_seq (mulberry32 (sint (ws XOR 0x6f3a2c91))) 2)\<rparr>"
proof -
  have "(160 :: nat) = Suc 159" by simp
  then show ?thesis
    using volcano_loop_islands [OF assms, of nz sd rp
        "mulberry32_seq (mulberry32 (sint (ws XOR 0x6f3a2c91)))" 159 0]
    by (simp add: makeECO_def Let_def numeral_2_eq_2)
qed

lemma eco777_0: "mulberry32_seq (mulberry32 1866084248) 0 = 830092084 / 4294967296"
  by (simp add: mulberry32_seq_early mulberry32_def mulberry32_next_def roundToDouble_def)

lemma eco777_1: "mulberry32_seq (mulberry32 1866084248) (Suc 0) = 519121810 / 4294967296"
  by (simp add: mulberry32_seq_early mulberry32_def mulberry32_next_def roundToDouble_def)

lemma eco777_2: "mulberry32_seq (mulberry32 1866084248) 2 = 432042597 / 4294967296"
  by (simp add: mulberry32_seq_early mulberry32_def mulberry32_next_def roundToDouble_def)

lemma volcano_exampleIslands:
  "volcano (ECO exampleIslands) =
     \<lparr>poi_x = - (27994570735 / 268435456), poi_z = - (69205378115 / 536870912),
      poi_r = 100105834273 / 2147483648\<rparr>"
proof -
  have "kind (BIOME exampleIslands) = miniIslands" by (rule kind_exampleIslands)
  then show ?thesis
    unfolding exampleIslands_def ECO_constructWorld
    by (simp add: volcano_makeECO_islands eco777_0 eco777_1 eco777_2 lerp_def WORLD_half_def)
qed


lemma craterRim_centre:
  assumes "0 < r"
  shows "craterRim r 0 \<le> 1 / 11"
proof -
  have e: "- ((0 - r * 0.55) * (0 - r * 0.55)) / (2 * (r * 0.12) * (r * 0.12)) = - (3025 / 288)"
    using assms by (simp add: field_simps)
  have "1 + 3025 / 288 \<le> exp (3025 / 288 :: real)" by (rule exp_ge_add_one_self)
  then have "(11 :: real) \<le> exp (3025 / 288)" by simp
  then have "1 / exp (3025 / 288 :: real) \<le> 1 / 11"
    by (intro divide_left_mono) simp_all
  then show ?thesis
    unfolding craterRim_def e by (simp add: exp_minus inverse_eq_divide)
qed

lemma crater_lowers_centre:
  assumes r: "0 < poi_r (volcano (ECO W))"
    and nz: "\<forall>a b c. \<bar>noise W a b c\<bar> \<le> 1"
  shows "volcanicRegion W (poi_x (volcano (ECO W))) (poi_z (volcano (ECO W))) h \<le> h - 3.6"
proof -
  let ?r = "poi_r (volcano (ECO W))"
  let ?vx = "poi_x (volcano (ECO W))"
  let ?vz = "poi_z (volcano (ECO W))"
  define n where "n = noise W (?vx * 0.06) (?vz * 0.06) (seed W + 9701) * 0.5 + 0.5"
  have n: "0 \<le> n" "n \<le> 1"
    using nz [rule_format, of "?vx * 0.06" "?vz * 0.06" "seed W + 9701"]
    by (simp_all add: n_def abs_le_iff)
  have d: "craterDistance W ?vx ?vz = 0" by (simp add: craterDistance_def hypot_def)
  have t: "craterBowlT ?r 0 = 1" using r by (simp add: craterBowlT_one_iff)
  have b: "craterBowl ?r 0 = 1" by (simp add: craterBowl_def)
  have rim: "craterRim ?r 0 \<le> 1 / 11" by (rule craterRim_centre [OF r])
  have rim0: "0 \<le> craterRim ?r 0" by (simp add: craterRim_def)
  have "craterRim ?r 0 * (2 + 2.2 * n) \<le> (1 / 11) * 4.2"
    using rim rim0 n by (intro mult_mono) simp_all
  moreover have "craterBowlRim W ?vx ?vz h =
                   h + craterRim ?r 0 * (2 + 2.2 * n) - 1 * (4 + 3 * (1 - n)) * 1"
    unfolding craterBowlRim_def Let_def d t b n_def by (rule refl)
  ultimately have "craterBowlRim W ?vx ?vz h \<le> h - 3.6"
    using n by simp
  moreover have "volcanicRegion W ?vx ?vz h \<le> craterBowlRim W ?vx ?vz h"
    using volcanicRegion_mild_terrace [OF r, of ?vx ?vz h] by (simp add: d t)
  ultimately show ?thesis by linarith
qed

lemma islands_raw_is_surface:
  assumes "kind (BIOME W) = miniIslands" and "hypot x z \<le> WORLD_half * 0.84"
  shows "terrainHeightRaw W x z = islandsSurface W x z"
  using assms by (simp add: terrainHeightRaw_def islandsHeightRaw_def edgeFade_inside)

text \<open>
  The claim as stated covers both biome modes, but the \<^verbatim>\<open>miniIslands\<close> branch of
  \<^verbatim>\<open>terrainHeightRaw\<close> returns before the crater block. In the island world of seed 777 the
  height at the volcano centre is the island surface as it is, while the crater block would
  lower it there by at least 3.6.
\<close>

theorem crater_absent_in_miniIslands_counterexample:
  "kind (BIOME exampleIslands) = miniIslands \<and>
   volcano (ECO exampleIslands) =
     \<lparr>poi_x = - (27994570735 / 268435456), poi_z = - (69205378115 / 536870912),
      poi_r = 100105834273 / 2147483648\<rparr> \<and>
   terrainHeightRaw exampleIslands (- (27994570735 / 268435456)) (- (69205378115 / 536870912)) =
     islandsSurface exampleIslands (- (27994570735 / 268435456)) (- (69205378115 / 536870912)) \<and>
   volcanicRegion exampleIslands (- (27994570735 / 268435456)) (- (69205378115 / 536870912))
       (islandsSurface exampleIslands (- (27994570735 / 268435456)) (- (69205378115 / 536870912)))
     \<le> islandsSurface exampleIslands (- (27994570735 / 268435456)) (- (69205378115 / 536870912))
         - 3.6"
proof -
  let ?X = "- (27994570735 / 268435456) :: real"
  let ?Z = "- (69205378115 / 536870912) :: real"
  have v: "volcano (ECO exampleIslands) =
     \<lparr>poi_x = ?X, poi_z = ?Z, poi_r = 100105834273 / 2147483648\<rparr>"
    by (rule volcano_exampleIslands)
  have "hypot ?X ?Z \<le> \<bar>?X\<bar> + \<bar>?Z\<bar>" by (rule hypot_le_abs_sum)
  then have "hypot ?X ?Z \<le> WORLD_half * 0.84" by (simp add: WORLD_half_def)
  then have raw: "terrainHeightRaw exampleIslands ?X ?Z = islandsSurface exampleIslands ?X ?Z"
    by (rule islands_raw_is_surface [OF kind_exampleIslands])
  have nz: "\<forall>a b c. \<bar>noise exampleIslands a b c\<bar> \<le> 1"
    by (simp add: exampleIslands_def noise_constructWorld flatNoise_def)
  have "volcanicRegion exampleIslands (poi_x (volcano (ECO exampleIslands)))
          (poi_z (volcano (ECO exampleIslands))) (islandsSurface exampleIslands ?X ?Z)
        \<le> islandsSurface exampleIslands ?X ?Z - 3.6"
    by (rule crater_lowers_centre [OF _ nz]) (simp add: v)
  then show ?thesis using kind_exampleIslands v raw by simp
qed

section \<open>Determinism\<close>

text \<open>Every stage of the construction reads \<^verbatim>\<open>randWorld\<close> only at the indices it consumes.\<close>

lemma islands_loop_mono: "i \<le> snd (islands_loop rw ct isls tries i)"
proof (induction rw ct isls tries i rule: islands_loop.induct)
  case (1 rw ct isls tries i)
  show ?case
  proof (cases "int (length isls) < ct \<and> tries < 5000")
    case False
    have "islands_loop rw ct isls tries i = (isls, i)"
      by (subst islands_loop.simps) (rule if_not_P [OF False])
    then show ?thesis by simp
  next
    case True
    have a: "i + 2 \<le> n \<Longrightarrow> i \<le> n" for n by simp
    have b: "i + 5 \<le> n \<Longrightarrow> i \<le> n" for n by simp
    have c: "i + 6 \<le> n \<Longrightarrow> i \<le> n" for n by simp
    show ?thesis
      apply (subst islands_loop.simps)
      using True "1.IH" by (auto intro: a b c)
  qed
qed

lemma islands_loop_prefix:
  "(\<forall>k. i \<le> k \<and> k < snd (islands_loop rw ct isls tries i) \<longrightarrow> rw' k = rw k) \<Longrightarrow>
   islands_loop rw' ct isls tries i = islands_loop rw ct isls tries i"
proof (induction rw ct isls tries i rule: islands_loop.induct)
  case (1 rw ct isls tries i)
  show ?case
  proof (cases "int (length isls) < ct \<and> tries < 5000")
    case False
    have "islands_loop rw ct isls tries i = (isls, i)"
      by (subst islands_loop.simps) (rule if_not_P [OF False])
    moreover have "islands_loop rw' ct isls tries i = (isls, i)"
      by (subst islands_loop.simps) (rule if_not_P [OF False])
    ultimately show ?thesis by simp
  next
    case True
    let ?x = "lerp (- WORLD_half * 0.46) (WORLD_half * 0.46) (rw i)"
    let ?z = "lerp (- WORLD_half * 0.46) (WORLD_half * 0.46) (rw (i + 1))"
    let ?far = "hypot ?x ?z > WORLD_half * 0.47"
    let ?hit = "list_ex (\<lambda>o'. hypot (isl_x o' - ?x) (isl_z o' - ?z)
                     < (isl_r o' + lerp 10.0 26.0 (rw (i + 2))) * 0.78) isls"
    let ?new = "\<lparr>isl_x = ?x, isl_z = ?z, isl_r = lerp 10.0 26.0 (rw (i + 2)),
                 isl_height = lerp 3.8 14.5 (rw (i + 3)),
                 isl_detail = lerp 0.25 1.0 (rw (i + 4)),
                 isl_seed = rw (i + 5) * 1000\<rparr>"
    consider (far) ?far | (hit) "\<not> ?far" ?hit | (new) "\<not> ?far" "\<not> ?hit" by blast
    then show ?thesis
    proof cases
      case far
      have e: "islands_loop rw ct isls tries i = islands_loop rw ct isls (tries + 1) (i + 2)"
        by (subst islands_loop.simps) (use True far in simp)
      have n: "i + 2 \<le> snd (islands_loop rw ct isls tries i)"
        unfolding e by (rule islands_loop_mono)
      have v: "rw' i = rw i" "rw' (i + 1) = rw (i + 1)"
        using "1.prems" n by simp_all
      have ih: "islands_loop rw' ct isls (tries + 1) (i + 2) = islands_loop rw ct isls (tries + 1) (i + 2)"
        using "1.IH"(1) [OF True far] "1.prems" e by simp
      have "islands_loop rw' ct isls tries i = islands_loop rw' ct isls (tries + 1) (i + 2)"
        by (subst islands_loop.simps) (use True far v in simp)
      then show ?thesis using e ih by simp
    next
      case hit
      have e: "islands_loop rw ct isls tries i = islands_loop rw ct isls (tries + 1) (i + 5)"
        by (subst islands_loop.simps) (use True hit in simp)
      have n: "i + 5 \<le> snd (islands_loop rw ct isls tries i)"
        unfolding e by (rule islands_loop_mono)
      have v: "rw' i = rw i" "rw' (i + 1) = rw (i + 1)" "rw' (i + 2) = rw (i + 2)"
        using "1.prems" n by simp_all
      have ih: "islands_loop rw' ct isls (tries + 1) (i + 5) = islands_loop rw ct isls (tries + 1) (i + 5)"
        using "1.IH"(2) [OF True hit] "1.prems" e by simp
      have "islands_loop rw' ct isls tries i = islands_loop rw' ct isls (tries + 1) (i + 5)"
        by (subst islands_loop.simps) (use True hit v in simp)
      then show ?thesis using e ih by simp
    next
      case new
      have e: "islands_loop rw ct isls tries i =
               islands_loop rw ct (isls @ [?new]) (tries + 1) (i + 6)"
        by (subst islands_loop.simps) (use True new in simp)
      have n: "i + 6 \<le> snd (islands_loop rw ct isls tries i)"
        unfolding e by (rule islands_loop_mono)
      have v: "rw' i = rw i" "rw' (i + 1) = rw (i + 1)" "rw' (i + 2) = rw (i + 2)"
        "rw' (i + 3) = rw (i + 3)" "rw' (i + 4) = rw (i + 4)" "rw' (i + 5) = rw (i + 5)"
        using "1.prems" n by simp_all
      have ih: "islands_loop rw' ct (isls @ [?new]) (tries + 1) (i + 6) =
                islands_loop rw ct (isls @ [?new]) (tries + 1) (i + 6)"
        using "1.IH"(3) [OF True new] "1.prems" e by simp
      have "islands_loop rw' ct isls tries i =
            islands_loop rw' ct (isls @ [?new]) (tries + 1) (i + 6)"
        by (subst islands_loop.simps) (use True new v in simp)
      then show ?thesis using e ih by simp
    qed
  qed
qed


lemma ponds_loop_mono:
  "i \<le> snd (ponds_loop nz sd rp rw cDir sPos sWidth pondCount pnds tries i)"
proof (induction nz sd rp rw cDir sPos sWidth pondCount pnds tries i rule: ponds_loop.induct)
  case (1 nz sd rp rw cDir sPos sWidth pondCount pnds tries i)
  show ?case
  proof (cases "int (length pnds) < pondCount \<and> tries < 650")
    case False
    have "ponds_loop nz sd rp rw cDir sPos sWidth pondCount pnds tries i = (pnds, i)"
      by (subst ponds_loop.simps) (rule if_not_P [OF False])
    then show ?thesis by simp
  next
    case True
    have a: "i + 2 \<le> n \<Longrightarrow> i \<le> n" for n by simp
    have b: "i + 5 \<le> n \<Longrightarrow> i \<le> n" for n by simp
    show ?thesis
      apply (subst ponds_loop.simps)
      using True "1.IH" by (auto intro: a b)
  qed
qed

lemma ponds_loop_prefix:
  "(\<forall>k. i \<le> k \<and> k < snd (ponds_loop nz sd rp rw cDir sPos sWidth pondCount pnds tries i)
        \<longrightarrow> rw' k = rw k) \<Longrightarrow>
   ponds_loop nz sd rp rw' cDir sPos sWidth pondCount pnds tries i =
   ponds_loop nz sd rp rw cDir sPos sWidth pondCount pnds tries i"
proof (induction nz sd rp rw cDir sPos sWidth pondCount pnds tries i rule: ponds_loop.induct)
  case (1 nz sd rp rw cDir sPos sWidth pondCount pnds tries i)
  show ?case
  proof (cases "int (length pnds) < pondCount \<and> tries < 650")
    case False
    have "ponds_loop nz sd rp rw cDir sPos sWidth pondCount pnds tries i = (pnds, i)"
      by (subst ponds_loop.simps) (rule if_not_P [OF False])
    moreover have "ponds_loop nz sd rp rw' cDir sPos sWidth pondCount pnds tries i = (pnds, i)"
      by (subst ponds_loop.simps) (rule if_not_P [OF False])
    ultimately show ?thesis by simp
  next
    case True
    let ?x = "lerp (- WORLD_half * 0.42) (WORLD_half * 0.42) (rw i)"
    let ?z = "lerp (- WORLD_half * 0.42) (WORLD_half * 0.42) (rw (i + 1))"
    let ?early = "\<bar>?x - riverCenterX nz sd rp ?z\<bar> < WORLD_riverBankWidth * 0.9 \<or>
                  ?x * fst cDir + ?z * snd cDir > sPos + sWidth * 0.55"
    let ?hit = "list_ex (\<lambda>p. hypot (pond_x p - ?x) (pond_z p - ?z)
                     < (pond_r p + lerp 6.5 14.5 (rw (i + 2))) * 1.25) pnds"
    let ?new = "\<lparr>pond_x = ?x, pond_z = ?z, pond_r = lerp 6.5 14.5 (rw (i + 2)),
                 pond_depth = lerp 1.1 3.2 (rw (i + 3)),
                 pond_fill = lerp 0.35 1.05 (rw (i + 4)), pond_level = 0\<rparr>"
    let ?L = "\<lambda>r p t j. ponds_loop nz sd rp r cDir sPos sWidth pondCount p t j"
    consider (early) ?early | (hit) "\<not> ?early" ?hit | (new) "\<not> ?early" "\<not> ?hit" by blast
    then show ?thesis
    proof cases
      case early
      have e: "?L rw pnds tries i = ?L rw pnds (tries + 1) (i + 2)"
        by (subst ponds_loop.simps) (use True early in simp)
      have n: "i + 2 \<le> snd (?L rw pnds tries i)"
        unfolding e by (rule ponds_loop_mono)
      have v: "rw' i = rw i" "rw' (i + 1) = rw (i + 1)"
        using "1.prems" n by simp_all
      have ih: "?L rw' pnds (tries + 1) (i + 2) = ?L rw pnds (tries + 1) (i + 2)"
        using "1.IH"(1) [OF True early] "1.prems" e by simp
      have "?L rw' pnds tries i = ?L rw' pnds (tries + 1) (i + 2)"
        by (subst ponds_loop.simps) (use True early v in simp)
      then show ?thesis using e ih by simp
    next
      case hit
      have e: "?L rw pnds tries i = ?L rw pnds (tries + 1) (i + 5)"
        by (subst ponds_loop.simps) (use True hit in simp)
      have n: "i + 5 \<le> snd (?L rw pnds tries i)"
        unfolding e by (rule ponds_loop_mono)
      have v: "rw' i = rw i" "rw' (i + 1) = rw (i + 1)" "rw' (i + 2) = rw (i + 2)"
        using "1.prems" n by simp_all
      have ih: "?L rw' pnds (tries + 1) (i + 5) = ?L rw pnds (tries + 1) (i + 5)"
        using "1.IH"(2) [OF True hit] "1.prems" e by simp
      have "?L rw' pnds tries i = ?L rw' pnds (tries + 1) (i + 5)"
        by (subst ponds_loop.simps) (use True hit v in simp)
      then show ?thesis using e ih by simp
    next
      case new
      have e: "?L rw pnds tries i = ?L rw (pnds @ [?new]) (tries + 1) (i + 5)"
        by (subst ponds_loop.simps) (use True new in simp)
      have n: "i + 5 \<le> snd (?L rw pnds tries i)"
        unfolding e by (rule ponds_loop_mono)
      have v: "rw' i = rw i" "rw' (i + 1) = rw (i + 1)" "rw' (i + 2) = rw (i + 2)"
        "rw' (i + 3) = rw (i + 3)" "rw' (i + 4) = rw (i + 4)"
        using "1.prems" n by simp_all
      have ih: "?L rw' (pnds @ [?new]) (tries + 1) (i + 5) = ?L rw (pnds @ [?new]) (tries + 1) (i + 5)"
        using "1.IH"(3) [OF True new] "1.prems" e by simp
      have "?L rw' pnds tries i = ?L rw' (pnds @ [?new]) (tries + 1) (i + 5)"
        by (subst ponds_loop.simps) (use True new v in simp)
      then show ?thesis using e ih by simp
    qed
  qed
qed


lemma feature_draw_prefix:
  assumes "\<forall>k. i \<le> k \<and> k < snd (feature_draw rw sty i) \<longrightarrow> rw' k = rw k"
  shows "feature_draw rw' sty i = feature_draw rw sty i"
proof -
  have n: "i + 4 \<le> snd (feature_draw rw sty i)"
    using feature_draw_calls [of i rw sty] by simp
  have v: "rw' i = rw i" "rw' (i + 1) = rw (i + 1)" "rw' (i + 2) = rw (i + 2)"
    "rw' (i + 3) = rw (i + 3)"
    using assms n by simp_all
  show ?thesis
  proof (cases "sty = style_canyon")
    case True
    have n5: "i + 5 \<le> snd (feature_draw rw sty i)"
      using True by (simp add: feature_draw_def Let_def)
    then have v4: "rw' (i + 4) = rw (i + 4)" using assms by simp
    show ?thesis
    proof (cases "rw (i + 4) < 0.45")
      case lt: True
      have "i + 6 \<le> snd (feature_draw rw sty i)"
        using True lt by (simp add: feature_draw_def Let_def)
      then have "rw' (i + 5) = rw (i + 5)" using assms by simp
      then show ?thesis using True lt v v4 by (simp add: feature_draw_def Let_def)
    next
      case False
      then show ?thesis using True v v4 by (simp add: feature_draw_def Let_def)
    qed
  next
    case False
    show ?thesis
    proof (cases "sty = style_plateau")
      case True
      have "i + 5 \<le> snd (feature_draw rw sty i)"
        using True by (simp add: feature_draw_def Let_def)
      then have "rw' (i + 4) = rw (i + 4)" using assms by simp
      then show ?thesis using True v by (simp add: feature_draw_def Let_def)
    next
      case np: False
      then show ?thesis using False v by (simp add: feature_draw_def Let_def)
    qed
  qed
qed

lemma features_loop_mono: "i \<le> snd (features_loop rw sty n feats i)"
proof (induction n arbitrary: feats i)
  case 0
  then show ?case by simp
next
  case (Suc n)
  have "snd (feature_draw rw sty i)
          \<le> snd (features_loop rw sty n (feats @ [fst (feature_draw rw sty i)])
                   (snd (feature_draw rw sty i)))"
    by (rule Suc)
  then show ?case using feature_draw_calls [of i rw sty] by simp
qed

lemma features_loop_prefix:
  "(\<forall>k. i \<le> k \<and> k < snd (features_loop rw sty n feats i) \<longrightarrow> rw' k = rw k) \<Longrightarrow>
   features_loop rw' sty n feats i = features_loop rw sty n feats i"
proof (induction n arbitrary: feats i)
  case 0
  then show ?case by simp
next
  case (Suc n)
  let ?d = "feature_draw rw sty i"
  have m: "snd ?d \<le> snd (features_loop rw sty (Suc n) feats i)"
    using features_loop_mono [of "snd ?d" rw sty n "feats @ [fst ?d]"] by simp
  have d: "feature_draw rw' sty i = ?d"
    using Suc.prems m by (intro feature_draw_prefix) simp
  have "i \<le> snd ?d" using feature_draw_calls [of i rw sty] by simp
  then have "features_loop rw' sty n (feats @ [fst ?d]) (snd ?d) =
             features_loop rw sty n (feats @ [fst ?d]) (snd ?d)"
    using Suc.prems by (intro Suc.IH) simp
  then show ?case by (simp add: d)
qed

lemma peak_loop_mono: "i \<le> snd (peak_loop rw B n i)"
proof (induction n arbitrary: i)
  case 0
  then show ?case by simp
next
  case (Suc n)
  show ?case using Suc [of "i + 2"] by (simp add: Let_def)
qed

lemma peak_loop_prefix:
  "(\<forall>k. i \<le> k \<and> k < snd (peak_loop rw B n i) \<longrightarrow> rw' k = rw k) \<Longrightarrow>
   peak_loop rw' B n i = peak_loop rw B n i"
proof (induction n arbitrary: i)
  case 0
  then show ?case by simp
next
  case (Suc n)
  have m: "i + 2 \<le> snd (peak_loop rw B (Suc n) i)"
    using peak_loop_mono [of "i + 2" rw B n] by (simp add: Let_def)
  have v: "rw' i = rw i" "rw' (i + 1) = rw (i + 1)"
    using Suc.prems m by simp_all
  show ?case
  proof (cases "lerp (- WORLD_half * 0.55) (WORLD_half * 0.55) (rw i) * fst (coastDir B)
                + lerp (- WORLD_half * 0.55) (WORLD_half * 0.55) (rw (i + 1)) * snd (coastDir B)
                  > shorePos B - shoreWidth B * 0.35")
    case True
    have "peak_loop rw' B n (i + 2) = peak_loop rw B n (i + 2)"
      using Suc.prems True by (intro Suc.IH) (simp add: Let_def)
    then show ?thesis using True v by (simp add: Let_def)
  next
    case False
    then show ?thesis using v by (simp add: Let_def)
  qed
qed

lemma ridges_loop_prefix:
  "(\<forall>k. i \<le> k \<and> k < snd (ridges_loop rw sty n rdgs i) \<longrightarrow> rw' k = rw k) \<Longrightarrow>
   ridges_loop rw' sty n rdgs i = ridges_loop rw sty n rdgs i"
proof (induction n arbitrary: rdgs i)
  case 0
  then show ?case by simp
next
  case (Suc n)
  have p: "\<forall>k. i \<le> k \<and> k < i + 5 + 5 * n \<longrightarrow> rw' k = rw k"
    using Suc.prems unfolding ridges_loop_calls by simp
  have v: "rw' i = rw i" "rw' (i + 1) = rw (i + 1)" "rw' (i + 2) = rw (i + 2)"
    "rw' (i + 3) = rw (i + 3)" "rw' (i + 4) = rw (i + 4)"
    using p by simp_all
  have "ridges_loop rw' sty n rdgs' (i + 5) = ridges_loop rw sty n rdgs' (i + 5)" for rdgs'
    using p by (intro Suc.IH) (simp add: ridges_loop_calls)
  then show ?case using v by (simp add: Let_def)
qed


lemma makeBiomeProfile_mono: "i \<le> snd (makeBiomeProfile nz sd rp rw m i)"
proof (cases "m = ''miniIslands''")
  case True
  then show ?thesis
    using islands_loop_mono [of "i + 2" rw "18 + \<lfloor>rw (i + 1) * 15\<rfloor>" "[]" 0]
    by (simp add: makeBiomeProfile_def Let_def)
next
  case False
  then show ?thesis
    using ponds_loop_mono [of "i + 6" nz sd rp rw
        "vec2_normalize (cos (rw i * pi * 2), sin (rw i * pi * 2))"
        "lerp 0.12 0.28 (rw (i + 1)) * WORLD_half" "lerp 18 40 (rw (i + 2))"
        "2 + \<lfloor>rw (i + 5) * 3\<rfloor>" "[]" 0]
    by (simp add: makeBiomeProfile_def Let_def)
qed

lemma makeBiomeProfile_prefix:
  assumes "\<forall>k. i \<le> k \<and> k < snd (makeBiomeProfile nz sd rp rw m i) \<longrightarrow> rw' k = rw k"
  shows "makeBiomeProfile nz sd rp rw' m i = makeBiomeProfile nz sd rp rw m i"
proof (cases "m = ''miniIslands''")
  case True
  let ?ct = "18 + \<lfloor>rw (i + 1) * 15\<rfloor>"
  have s: "snd (makeBiomeProfile nz sd rp rw m i) = snd (islands_loop rw ?ct [] 0 (i + 2))"
    using True by (simp add: makeBiomeProfile_def Let_def)
  have n: "i + 2 \<le> snd (islands_loop rw ?ct [] 0 (i + 2))" by (rule islands_loop_mono)
  have v: "rw' i = rw i" "rw' (i + 1) = rw (i + 1)"
    using assms n unfolding s by simp_all
  have "islands_loop rw' ?ct [] 0 (i + 2) = islands_loop rw ?ct [] 0 (i + 2)"
    using assms unfolding s by (intro islands_loop_prefix) simp
  then show ?thesis using True v by (simp add: makeBiomeProfile_def Let_def)
next
  case False
  let ?L = "\<lambda>r. ponds_loop nz sd rp r
                (vec2_normalize (cos (rw i * pi * 2), sin (rw i * pi * 2)))
                (lerp 0.12 0.28 (rw (i + 1)) * WORLD_half) (lerp 18 40 (rw (i + 2)))
                (2 + \<lfloor>rw (i + 5) * 3\<rfloor>) [] 0 (i + 6)"
  have s: "snd (makeBiomeProfile nz sd rp rw m i) = snd (?L rw) + 9"
    using False by (simp add: makeBiomeProfile_def Let_def)
  have n: "i + 6 \<le> snd (?L rw)" by (rule ponds_loop_mono)
  have v: "rw' i = rw i" "rw' (i + 1) = rw (i + 1)" "rw' (i + 2) = rw (i + 2)"
    "rw' (i + 3) = rw (i + 3)" "rw' (i + 4) = rw (i + 4)" "rw' (i + 5) = rw (i + 5)"
    using assms n unfolding s by simp_all
  have l: "?L rw' = ?L rw"
    using assms unfolding s by (intro ponds_loop_prefix) simp
  have w: "rw' (snd (?L rw) + d) = rw (snd (?L rw) + d)" if "d < 9" for d
    using assms n that unfolding s by simp
  have w0: "rw' (snd (?L rw)) = rw (snd (?L rw))" using w [of 0] by simp
  have w': "rw' (snd (?L rw) + 1) = rw (snd (?L rw) + 1)" "rw' (snd (?L rw) + 2) = rw (snd (?L rw) + 2)"
    "rw' (snd (?L rw) + 3) = rw (snd (?L rw) + 3)" "rw' (snd (?L rw) + 4) = rw (snd (?L rw) + 4)"
    "rw' (snd (?L rw) + 5) = rw (snd (?L rw) + 5)" "rw' (snd (?L rw) + 6) = rw (snd (?L rw) + 6)"
    "rw' (snd (?L rw) + 7) = rw (snd (?L rw) + 7)" "rw' (snd (?L rw) + 8) = rw (snd (?L rw) + 8)"
    using w [of 1] w [of 2] w [of 3] w [of 4] w [of 5] w [of 6] w [of 7] w [of 8] by simp_all
  show ?thesis
    using False v l w0 w' by (simp add: makeBiomeProfile_def Let_def)
qed

lemma makeRiverProfile_prefix:
  assumes "\<forall>k < 7. rw' k = rw k"
  shows "makeRiverProfile rw' sd 0 = makeRiverProfile rw sd 0"
  using assms by (simp add: makeRiverProfile_def Let_def)


lemma ridges_loop_mono: "i \<le> snd (ridges_loop rw sty n rdgs i)"
  by (simp add: ridges_loop_calls)

lemma makeTerrainProfile_prefix:
  assumes "\<forall>k. i \<le> k \<and> k < snd (makeTerrainProfile rw B i) \<longrightarrow> rw' k = rw k"
  shows "makeTerrainProfile rw' B i = makeTerrainProfile rw B i"
proof (cases "kind B = miniIslands")
  case True
  then show ?thesis by (simp add: makeTerrainProfile_def Let_def)
next
  case False
  define sty where "sty = (if rw i < 0.26 then style_alpine else if rw i < 0.54 then style_plateau
                    else if rw i < 0.78 then style_canyon else style_rolling)"
  define fs where "fs = features_loop rw sty (nat \<lfloor>lerp 3 8 (rw (i + 6))\<rfloor>) [] (i + 7)"
  define pl where "pl = peak_loop rw B 80 (snd fs)"
  define pk where "pk = (case fst pl of
                     Some (x, z) \<Rightarrow> (x, z, snd pl)
                   | None \<Rightarrow>
                       (lerp (- WORLD_half * 0.45) (WORLD_half * 0.45) (rw (snd pl)),
                        lerp (- WORLD_half * 0.45) (WORLD_half * 0.45) (rw (snd pl + 1)),
                        snd pl + 2))"
  define j where "j = snd (snd pk)"
  define rs where "rs = ridges_loop rw sty (nat \<lfloor>lerp 1 3 (rw (j + 2))\<rfloor>) [] (j + 3)"
  have N: "snd (makeTerrainProfile rw B i) = snd rs + 2"
    unfolding makeTerrainProfile_def Let_def
    unfolding sty_def [symmetric]
    unfolding fs_def [symmetric]
    unfolding pl_def [symmetric]
    unfolding pk_def [symmetric]
    unfolding j_def [symmetric]
    unfolding rs_def [symmetric]
    using False by simp
  have c1: "i + 7 \<le> snd fs" unfolding fs_def by (rule features_loop_mono)
  have c2: "snd fs \<le> snd pl" unfolding pl_def by (rule peak_loop_mono)
  have c3: "snd pl \<le> j" "j \<le> snd pl + 2"
    by (simp_all add: j_def pk_def split: option.split prod.split)
  have c4: "j + 3 \<le> snd rs" unfolding rs_def by (rule ridges_loop_mono)
  have eq: "rw' k = rw k" if "i \<le> k" "k < snd rs + 2" for k
    using assms that unfolding N by simp
  have v: "rw' i = rw i" "rw' (i + 1) = rw (i + 1)" "rw' (i + 2) = rw (i + 2)"
    "rw' (i + 3) = rw (i + 3)" "rw' (i + 4) = rw (i + 4)" "rw' (i + 5) = rw (i + 5)"
    "rw' (i + 6) = rw (i + 6)"
    using c1 c2 c3 c4 by (simp_all add: eq)
  have f: "features_loop rw' sty (nat \<lfloor>lerp 3 8 (rw (i + 6))\<rfloor>) [] (i + 7) = fs"
    unfolding fs_def
  proof (rule features_loop_prefix, intro allI impI)
    fix k
    assume "i + 7 \<le> k \<and>
            k < snd (features_loop rw sty (nat \<lfloor>lerp 3 8 (rw (i + 6))\<rfloor>) [] (i + 7))"
    then have "i \<le> k" "k < snd rs + 2" using c2 c3 c4 by (simp_all add: fs_def)
    then show "rw' k = rw k" by (rule eq)
  qed
  have p: "peak_loop rw' B 80 (snd fs) = pl"
    unfolding pl_def
  proof (rule peak_loop_prefix, intro allI impI)
    fix k
    assume "snd fs \<le> k \<and> k < snd (peak_loop rw B 80 (snd fs))"
    then have "i \<le> k" "k < snd rs + 2" using c1 c3 c4 by (simp_all add: pl_def)
    then show "rw' k = rw k" by (rule eq)
  qed
  have fb: "rw' (snd pl) = rw (snd pl)" "rw' (snd pl + 1) = rw (snd pl + 1)"
    using c1 c2 c3 c4 by (simp_all add: eq)
  have jv: "rw' j = rw j" "rw' (j + 1) = rw (j + 1)" "rw' (j + 2) = rw (j + 2)"
    using c1 c2 c3 c4 by (simp_all add: eq)
  have r: "ridges_loop rw' sty (nat \<lfloor>lerp 1 3 (rw (j + 2))\<rfloor>) [] (j + 3) = rs"
    unfolding rs_def
  proof (rule ridges_loop_prefix, intro allI impI)
    fix k
    assume "j + 3 \<le> k \<and>
            k < snd (ridges_loop rw sty (nat \<lfloor>lerp 1 3 (rw (j + 2))\<rfloor>) [] (j + 3))"
    then have "i \<le> k" "k < snd rs + 2" using c1 c2 c3 by (simp_all add: rs_def)
    then show "rw' k = rw k" by (rule eq)
  qed
  have kv: "rw' (snd rs) = rw (snd rs)" "rw' (snd rs + 1) = rw (snd rs + 1)"
    using c1 c2 c3 c4 by (simp_all add: eq)
  show ?thesis
    unfolding makeTerrainProfile_def Let_def
    unfolding v
    unfolding sty_def [symmetric]
    unfolding f fs_def [symmetric]
    unfolding p pl_def [symmetric]
    unfolding fb
    unfolding pk_def [symmetric]
    unfolding j_def [symmetric]
    unfolding jv
    unfolding r rs_def [symmetric]
    unfolding kv
    by (rule refl)
qed

lemma makeTerrainProfile_mono: "i \<le> snd (makeTerrainProfile rw B i)"
proof (cases "kind B = miniIslands")
  case True
  then show ?thesis by (simp add: makeTerrainProfile_def Let_def)
next
  case False
  define sty where "sty = (if rw i < 0.26 then style_alpine else if rw i < 0.54 then style_plateau
                    else if rw i < 0.78 then style_canyon else style_rolling)"
  define fs where "fs = features_loop rw sty (nat \<lfloor>lerp 3 8 (rw (i + 6))\<rfloor>) [] (i + 7)"
  define pl where "pl = peak_loop rw B 80 (snd fs)"
  define pk where "pk = (case fst pl of
                     Some (x, z) \<Rightarrow> (x, z, snd pl)
                   | None \<Rightarrow>
                       (lerp (- WORLD_half * 0.45) (WORLD_half * 0.45) (rw (snd pl)),
                        lerp (- WORLD_half * 0.45) (WORLD_half * 0.45) (rw (snd pl + 1)),
                        snd pl + 2))"
  define j where "j = snd (snd pk)"
  define rs where "rs = ridges_loop rw sty (nat \<lfloor>lerp 1 3 (rw (j + 2))\<rfloor>) [] (j + 3)"
  have N: "snd (makeTerrainProfile rw B i) = snd rs + 2"
    unfolding makeTerrainProfile_def Let_def
    unfolding sty_def [symmetric]
    unfolding fs_def [symmetric]
    unfolding pl_def [symmetric]
    unfolding pk_def [symmetric]
    unfolding j_def [symmetric]
    unfolding rs_def [symmetric]
    using False by simp
  have c1: "i + 7 \<le> snd fs" unfolding fs_def by (rule features_loop_mono)
  have c2: "snd fs \<le> snd pl" unfolding pl_def by (rule peak_loop_mono)
  have c3: "snd pl \<le> j"
    by (simp add: j_def pk_def split: option.split prod.split)
  have c4: "j + 3 \<le> snd rs" unfolding rs_def by (rule ridges_loop_mono)
  show ?thesis using c1 c2 c3 c4 unfolding N by simp
qed

lemma snd_makeRiverProfile: "snd (makeRiverProfile rw sd i) = i + 7"
  by (simp add: makeRiverProfile_def Let_def)

lemma constructWorld_prefix:
  assumes "\<forall>k. k < fst (snd (constructWorld nz ws rw bm)) \<longrightarrow> rw' k = rw k"
  shows "constructWorld nz ws rw' bm = constructWorld nz ws rw bm"
proof -
  define m where "m = (case bm of Some m \<Rightarrow> m | None \<Rightarrow> ''mainland'')"
  define sd :: real where "sd = real (unat ws) * 0.000123 + 12.345"
  define rp where "rp = makeRiverProfile rw sd 0"
  define b where "b = makeBiomeProfile nz sd (fst rp) rw m (snd rp)"
  define tp where "tp = makeTerrainProfile rw (fst b) (snd b)"
  have N: "fst (snd (constructWorld nz ws rw bm)) = snd tp"
    unfolding constructWorld_def Let_def
    unfolding m_def [symmetric] sd_def [symmetric]
    unfolding rp_def [symmetric]
    unfolding b_def [symmetric]
    unfolding tp_def [symmetric]
    by simp
  have c0: "snd rp = 7" by (simp add: rp_def snd_makeRiverProfile)
  have c1: "snd rp \<le> snd b" unfolding b_def by (rule makeBiomeProfile_mono)
  have c2: "snd b \<le> snd tp" unfolding tp_def by (rule makeTerrainProfile_mono)
  have eq: "rw' k = rw k" if "k < snd tp" for k
    using assms that unfolding N by simp
  have r: "makeRiverProfile rw' sd 0 = rp"
    unfolding rp_def
    by (rule makeRiverProfile_prefix) (use c0 c1 c2 eq in simp)
  have bb: "makeBiomeProfile nz sd (fst rp) rw' m (snd rp) = b"
    unfolding b_def
  proof (rule makeBiomeProfile_prefix, intro allI impI)
    fix k
    assume "snd rp \<le> k \<and> k < snd (makeBiomeProfile nz sd (fst rp) rw m (snd rp))"
    then have "k < snd tp" using c2 by (simp add: b_def)
    then show "rw' k = rw k" by (rule eq)
  qed
  have t: "makeTerrainProfile rw' (fst b) (snd b) = tp"
    unfolding tp_def
  proof (rule makeTerrainProfile_prefix, intro allI impI)
    fix k
    assume "snd b \<le> k \<and> k < snd (makeTerrainProfile rw (fst b) (snd b))"
    then have "k < snd tp" by (simp add: tp_def)
    then show "rw' k = rw k" by (rule eq)
  qed
  show ?thesis
    unfolding constructWorld_def Let_def
    unfolding m_def [symmetric] sd_def [symmetric]
    unfolding r rp_def [symmetric]
    unfolding bb b_def [symmetric]
    unfolding t tp_def [symmetric]
    by (rule refl)
qed

text \<open>Claim C1: two world generators constructed independently with the same noise function,
  the same world seed and the same biome mode, from two \<^verbatim>\<open>randWorld\<close> generators that return the
  same values during the construction (as two \<^verbatim>\<open>mulberry32\<close> generators of one seed do), are
  the same world: \<^verbatim>\<open>terrainHeight\<close> agrees at every \<open>(x, z)\<close> and the ecology sample of
  \<^verbatim>\<open>sampleTo\<close> agrees at every \<open>(x, z, y, normalY)\<close>.  What \<^verbatim>\<open>randWorld\<close> returns after the
  construction has no influence.\<close>

theorem world_generation_is_deterministic:
  assumes "\<forall>k. k < fst (snd (constructWorld nz s rw bm)) \<longrightarrow> rw' k = rw k"
  shows "createWorldGen nz (Some s) (Some rw') bm = createWorldGen nz (Some s) (Some rw) bm \<and>
         (\<forall>x z. terrainHeight (fst (constructWorld nz s rw' bm)) x z
                  = terrainHeight (fst (constructWorld nz s rw bm)) x z) \<and>
         (\<forall>x z y normalY. sampleTo (fst (constructWorld nz s rw' bm)) x z y normalY
                  = sampleTo (fst (constructWorld nz s rw bm)) x z y normalY)"
proof -
  have "constructWorld nz s rw' bm = constructWorld nz s rw bm"
    using assms by (rule constructWorld_prefix)
  then show ?thesis by (simp add: createWorldGen_def)
qed

theorem world_generation_is_deterministic_witness:
  "fst (snd (constructWorld flatNoise 777 (mulberry32_seq (mulberry32 777))
               (Some ''miniIslands''))) \<le> 30009 \<and>
   createWorldGen flatNoise (Some 777)
     (Some (\<lambda>k. if k < 30009 then mulberry32_seq (mulberry32 777) k else 0))
     (Some ''miniIslands'') = Inr exampleIslands \<and>
   (\<forall>x z. terrainHeight (fst (constructWorld flatNoise 777
               (\<lambda>k. if k < 30009 then mulberry32_seq (mulberry32 777) k else 0)
               (Some ''miniIslands''))) x z = terrainHeight exampleIslands x z) \<and>
   (\<forall>x z y normalY. sampleTo (fst (constructWorld flatNoise 777
               (\<lambda>k. if k < 30009 then mulberry32_seq (mulberry32 777) k else 0)
               (Some ''miniIslands''))) x z y normalY = sampleTo exampleIslands x z y normalY)"
proof -
  have r: "\<forall>k. 0 \<le> mulberry32_seq (mulberry32 777) k \<and> mulberry32_seq (mulberry32 777) k < 1"
    by (simp add: mulberry32_seq_range)
  have n: "fst (snd (constructWorld flatNoise 777 (mulberry32_seq (mulberry32 777))
                         (Some ''miniIslands''))) \<le> 30009"
    using constructWorld_calls [OF r, of flatNoise 777 "Some ''miniIslands''"] by simp
  have h: "\<forall>k. k < fst (snd (constructWorld flatNoise 777 (mulberry32_seq (mulberry32 777))
                         (Some ''miniIslands'')))
        \<longrightarrow> (\<lambda>k. if k < 30009 then mulberry32_seq (mulberry32 777) k else 0) k
              = mulberry32_seq (mulberry32 777) k"
    using n by simp
  show ?thesis
    using n world_generation_is_deterministic [OF h] createWorldGen_exampleIslands
    by (simp add: exampleIslands_def)
qed

end
